theory Spec2Isabelle
  imports Main "HOL-Library.Word"
begin

unbundle bit_operations_syntax

section \<open>Values exchanged with the JSON and WebSocket libraries\<close>

text \<open>
  The server keeps its payloads as jansson values. A \<open>json_t *\<close> that may be \<open>NULL\<close> is a
  \<open>json option\<close>; an object is the list of its members in insertion order.
\<close>

datatype json =
    JNull
  | JBool bool
  | JInt int
  | JString string
  | JArray "json list"
  | JObject "(string \<times> json) list"

text \<open>\<open>json_object_get\<close> answers \<open>NULL\<close> for a \<open>NULL\<close> or non-object argument.\<close>

definition json_object_get :: "json option \<Rightarrow> string \<Rightarrow> json option" where
  "json_object_get j key =
     (case j of Some (JObject kvs) \<Rightarrow> map_of kvs key | _ \<Rightarrow> None)"

text \<open>\<open>json_string_value\<close> answers \<open>NULL\<close> for anything that is not a JSON string.\<close>

definition json_string_value :: "json option \<Rightarrow> string option" where
  "json_string_value j = (case j of Some (JString s) \<Rightarrow> Some s | _ \<Rightarrow> None)"

text \<open>
  \<open>message_t\<close> of \<open>messages.h\<close>. The reference count only decides when the C object is
  freed; the embedding copies values and leaves it out.
\<close>

record message_t =
  m_event :: string
  m_data :: "json option"

text \<open>
  What the code calls and this repository does not define: \<open>json_loads\<close> and
  \<open>json_dumps(_, 0)\<close> of jansson (both may answer \<open>NULL\<close>), and the outcome of handing one
  envelope to a connection, that is \<open>message_serialize\<close> followed by \<open>lws_write\<close>
  (a positive byte count, or a value \<open>\<le> 0\<close> when it fails).
\<close>

record extern =
  ext_json_loads :: "string \<Rightarrow> json option"
  ext_json_dumps :: "json \<Rightarrow> string option"
  ext_lws_write :: "nat \<Rightarrow> message_t \<Rightarrow> int"

section \<open>Data model (\<open>client.h\<close>, \<open>room.h\<close>, \<open>messages.h\<close>, \<open>server.h\<close>)\<close>

text \<open>
  Pointers are indices: a \<open>client_t *\<close> is the index of the client's slot in the client
  registry's array, a \<open>room_t *\<close> the index of the room's slot in the room registry's
  array, a \<open>struct lws *\<close> a connection number; \<open>None\<close> is \<open>NULL\<close>. A slot keeps its
  address when it is reused, and so does its index.
\<close>

datatype client_state_t =
    CLIENT_STATE_CONNECTED
  | CLIENT_STATE_JOINING_ROOM
  | CLIENT_STATE_IN_ROOM
  | CLIENT_STATE_DISCONNECTING

record client_t =
  c_id :: string
  c_wsi :: "nat option"
  c_room :: "nat option"
  c_state :: client_state_t
  c_last_activity :: "32 word"
  c_connect_time :: "32 word"
  c_messages_sent :: "64 word"
  c_messages_received :: "64 word"
  c_is_alive :: bool

definition MAX_PARTICIPANTS :: nat where
  "MAX_PARTICIPANTS = 6"

datatype room_state_t =
    ROOM_STATE_ACTIVE
  | ROOM_STATE_EMPTY
  | ROOM_STATE_CLOSING

record participant_t =
  p_client :: "nat option"
  p_join_time :: "32 word"
  p_is_owner :: bool

record room_t =
  r_id :: string
  r_name :: string
  r_participants :: "participant_t list"
  r_participant_count :: "8 word"
  r_state :: room_state_t
  r_created_at :: "32 word"
  r_last_activity :: "32 word"
  r_owner :: "nat option"

record ws_message_t =
  ws_wsi :: "nat option"
  ws_message :: "message_t option"
  ws_timestamp :: "64 word"

record message_queue_t =
  q_messages :: "ws_message_t list"
  q_capacity :: nat
  q_head :: nat
  q_tail :: nat
  q_count :: nat

text \<open>
  \<open>server_context_t\<close> with its two registries laid out flat: \<open>clients\<close> is
  \<open>ctx->clients.clients\<close> (its length is \<open>max_clients\<close>), \<open>rooms\<close> is
  \<open>ctx->rooms.rooms\<close> (its length is \<open>max_rooms\<close>). The last field is not in the C
  structure: it is the trace of the envelopes handed to the WebSocket layer, each with the
  client slot it was sent to.
\<close>

record server_context_t =
  clients :: "client_t list"
  active_count :: "64 word"
  total_connections :: "64 word"
  rooms :: "room_t list"
  active_rooms :: "64 word"
  total_rooms_created :: "64 word"
  msg_queue :: message_queue_t
  client_timeout_sec :: "32 word"
  total_messages :: "64 word"
  total_errors :: "64 word"
  running :: bool
  sent :: "(nat \<times> message_t) list"

text \<open>The all-zero structures that \<open>memset\<close> and \<open>calloc\<close> produce.\<close>

definition zero_client :: client_t where
  "zero_client = \<lparr>c_id = [], c_wsi = None, c_room = None, c_state = CLIENT_STATE_CONNECTED,
     c_last_activity = 0, c_connect_time = 0, c_messages_sent = 0, c_messages_received = 0,
     c_is_alive = False\<rparr>"

definition zero_participant :: participant_t where
  "zero_participant = \<lparr>p_client = None, p_join_time = 0, p_is_owner = False\<rparr>"

definition zero_room :: room_t where
  "zero_room = \<lparr>r_id = [], r_name = [],
     r_participants = replicate MAX_PARTICIPANTS zero_participant,
     r_participant_count = 0, r_state = ROOM_STATE_ACTIVE, r_created_at = 0,
     r_last_activity = 0, r_owner = None\<rparr>"

definition zero_ws_message :: ws_message_t where
  "zero_ws_message = \<lparr>ws_wsi = None, ws_message = None, ws_timestamp = 0\<rparr>"

text \<open>
  A loop that scans an array and acts on the first element that passes a test:
  \<open>first_index P xs\<close> is the index the loop stops at, \<open>None\<close> when it runs to the end.
\<close>

fun first_index :: "('a \<Rightarrow> bool) \<Rightarrow> 'a list \<Rightarrow> nat option" where
  "first_index P [] = None"
| "first_index P (x # xs) = (if P x then Some 0 else map_option Suc (first_index P xs))"

section \<open>\<open>utilities.c\<close>\<close>

definition hex_digit :: "nat \<Rightarrow> char" where
  "hex_digit d = ''0123456789abcdef'' ! d"

fun to_hex :: "nat \<Rightarrow> string" where
  "to_hex n = (if n < 16 then [hex_digit n] else to_hex (n div 16) @ [hex_digit (n mod 16)])"

declare to_hex.simps [simp del]

text \<open>The conversion \<open>%0wx\<close> of \<open>printf\<close>: hexadecimal, padded with zeros to at least \<open>w\<close>.\<close>

definition printf_0x :: "nat \<Rightarrow> nat \<Rightarrow> string" where
  "printf_0x w n = replicate (w - length (to_hex n)) (CHR ''0'') @ to_hex n"

text \<open>
  \<open>generate_uuid\<close>, on a buffer that was zeroed before (as it is in \<open>client_init\<close> and
  \<open>room_init\<close>). \<open>rs 0\<close>, ..., \<open>rs 5\<close> are the six results of \<open>rand_r\<close> in the order of
  the format's arguments. The result is the string left in the buffer; with \<open>size \<ge> 37\<close>
  \<open>snprintf\<close> does not truncate.
\<close>

definition generate_uuid :: "(nat \<Rightarrow> 32 word) \<Rightarrow> nat \<Rightarrow> string" where
  "generate_uuid rs sz =
     (if sz < 37 then []
      else printf_0x 8 (unat (rs 0 AND 0xffffffff)) @ ''-''
         @ printf_0x 4 (unat (rs 1 AND 0xffff)) @ ''-4''
         @ printf_0x 3 (unat (rs 2 AND 0x0fff)) @ ''-''
         @ printf_0x 4 (unat ((rs 3 AND 0x3fff) OR 0x8000)) @ ''-''
         @ printf_0x 8 (unat (rs 4 AND 0xffffffff))
         @ printf_0x 4 (unat (rs 5 AND 0xffff)))"

text \<open>\<open>safe_strncpy\<close> into a zeroed buffer: the string the destination holds afterwards.\<close>

definition safe_strncpy :: "string \<Rightarrow> nat \<Rightarrow> string" where
  "safe_strncpy src dest_size = take (dest_size - 1) src"

section \<open>\<open>client.c\<close>\<close>

text \<open>
  One reading of the clock, \<open>now\<close>, stands for all the calls of \<open>get_timestamp_sec\<close>
  that one call of a modelled function makes.
\<close>

definition client_init :: "nat option \<Rightarrow> (nat \<Rightarrow> 32 word) \<Rightarrow> 32 word \<Rightarrow> client_t" where
  "client_init wsi rs now =
     zero_client\<lparr>c_id := generate_uuid rs 37, c_wsi := wsi,
       c_state := CLIENT_STATE_CONNECTED, c_connect_time := now, c_last_activity := now,
       c_is_alive := True\<rparr>"

definition client_cleanup :: "client_t \<Rightarrow> client_t" where
  "client_cleanup cl = cl\<lparr>c_is_alive := False, c_state := CLIENT_STATE_DISCONNECTING\<rparr>"

definition client_update_activity :: "client_t \<Rightarrow> 32 word \<Rightarrow> client_t" where
  "client_update_activity cl now = cl\<lparr>c_last_activity := now\<rparr>"

definition client_is_timed_out :: "client_t \<Rightarrow> 32 word \<Rightarrow> 32 word \<Rightarrow> bool" where
  "client_is_timed_out cl timeout_sec now = (now - c_last_activity cl > timeout_sec)"

text \<open>
  \<open>client_send_message\<close>: the payload string, when there is one, is wrapped by
  \<open>json_string\<close> before it goes into the envelope. Allocation is taken to succeed.
\<close>

definition client_send_message ::
  "extern \<Rightarrow> server_context_t \<Rightarrow> nat \<Rightarrow> string \<Rightarrow> string option \<Rightarrow> server_context_t \<times> int" where
  "client_send_message E ctx c ev dat =
     (let cl = clients ctx ! c in
      case c_wsi cl of
        None \<Rightarrow> (ctx, -1)
      | Some w \<Rightarrow>
          if \<not> c_is_alive cl then (ctx, -1)
          else
            let msg = \<lparr>m_event = ev, m_data = map_option JString dat\<rparr>;
                ret = ext_lws_write E w msg;
                ctx1 = ctx\<lparr>sent := sent ctx @ [(c, msg)]\<rparr>
            in if ret > 0
               then (ctx1\<lparr>clients := (clients ctx1)
                        [c := cl\<lparr>c_messages_sent := c_messages_sent cl + 1\<rparr>]\<rparr>, ret)
               else (ctx1, ret))"

definition client_registry_add ::
  "server_context_t \<Rightarrow> nat option \<Rightarrow> (nat \<Rightarrow> 32 word) \<Rightarrow> 32 word
     \<Rightarrow> server_context_t \<times> nat option" where
  "client_registry_add ctx wsi rs now =
     (case first_index (\<lambda>cl. \<not> c_is_alive cl) (clients ctx) of
        Some i \<Rightarrow>
          (ctx\<lparr>clients := (clients ctx)[i := client_init wsi rs now],
               active_count := active_count ctx + 1,
               total_connections := total_connections ctx + 1\<rparr>, Some i)
      | None \<Rightarrow> (ctx, None))"

definition client_registry_remove :: "server_context_t \<Rightarrow> nat option \<Rightarrow> server_context_t" where
  "client_registry_remove ctx cp =
     (case cp of
        None \<Rightarrow> ctx
      | Some c \<Rightarrow>
          if c_is_alive (clients ctx ! c)
          then ctx\<lparr>clients := (clients ctx)[c := client_cleanup (clients ctx ! c)],
                   active_count := active_count ctx - 1\<rparr>
          else ctx)"

definition client_registry_find_by_wsi :: "server_context_t \<Rightarrow> nat option \<Rightarrow> nat option" where
  "client_registry_find_by_wsi ctx wsi =
     first_index (\<lambda>cl. c_is_alive cl \<and> c_wsi cl = wsi) (clients ctx)"

section \<open>The ingress queue (\<open>message.c\<close>)\<close>

text \<open>
  \<open>message_deserialize\<close>, on the value \<open>json_loads\<close> produced (\<open>None\<close> when the frame
  does not parse).
\<close>

definition message_deserialize :: "json option \<Rightarrow> message_t option" where
  "message_deserialize root =
     (case root of
        None \<Rightarrow> None
      | Some _ \<Rightarrow>
          (case json_object_get root ''event'' of
             Some (JString ev) \<Rightarrow> Some \<lparr>m_event = ev, m_data = json_object_get root ''data''\<rparr>
           | _ \<Rightarrow> None))"

definition message_queue_init :: "nat \<Rightarrow> message_queue_t" where
  "message_queue_init capacity =
     \<lparr>q_messages = replicate capacity zero_ws_message, q_capacity = capacity,
      q_head = 0, q_tail = 0, q_count = 0\<rparr>"

definition message_queue_push ::
  "message_queue_t \<Rightarrow> nat option \<Rightarrow> message_t \<Rightarrow> 64 word \<Rightarrow> message_queue_t \<times> int" where
  "message_queue_push queue wsi msg now_ms =
     (if q_count queue \<ge> q_capacity queue then (queue, -1)
      else
        (queue\<lparr>q_messages := (q_messages queue)
                  [q_tail queue := \<lparr>ws_wsi = wsi, ws_message = Some msg, ws_timestamp = now_ms\<rparr>],
               q_tail := (q_tail queue + 1) mod q_capacity queue,
               q_count := q_count queue + 1\<rparr>, 0))"

definition message_queue_pop :: "message_queue_t \<Rightarrow> message_queue_t \<times> ws_message_t option" where
  "message_queue_pop queue =
     (if q_count queue = 0 then (queue, None)
      else
        (queue\<lparr>q_messages := (q_messages queue)[q_head queue := zero_ws_message],
               q_head := (q_head queue + 1) mod q_capacity queue,
               q_count := q_count queue - 1\<rparr>,
         Some (q_messages queue ! q_head queue)))"

section \<open>\<open>room.c\<close>\<close>

definition room_is_full :: "server_context_t \<Rightarrow> nat option \<Rightarrow> bool" where
  "room_is_full ctx rp =
     (case rp of
        None \<Rightarrow> False
      | Some r \<Rightarrow> unat (r_participant_count (rooms ctx ! r)) \<ge> MAX_PARTICIPANTS)"

definition room_is_empty :: "server_context_t \<Rightarrow> nat option \<Rightarrow> bool" where
  "room_is_empty ctx rp =
     (case rp of
        None \<Rightarrow> False
      | Some r \<Rightarrow> r_participant_count (rooms ctx ! r) = 0)"

text \<open>The scan of \<open>room_find_participant\<close> over the slots of one room.\<close>

fun find_participant_loop :: "client_t list \<Rightarrow> string \<Rightarrow> participant_t list \<Rightarrow> nat option" where
  "find_participant_loop cs cid [] = None"
| "find_participant_loop cs cid (p # ps) =
     (case p_client p of
        Some k \<Rightarrow> if c_id (cs ! k) = cid then Some k else find_participant_loop cs cid ps
      | None \<Rightarrow> find_participant_loop cs cid ps)"

definition room_find_participant ::
  "server_context_t \<Rightarrow> nat option \<Rightarrow> string option \<Rightarrow> nat option" where
  "room_find_participant ctx rp client_id =
     (case (rp, client_id) of
        (Some r, Some cid) \<Rightarrow>
          find_participant_loop (clients ctx) cid
            (take MAX_PARTICIPANTS (r_participants (rooms ctx ! r)))
      | _ \<Rightarrow> None)"

definition room_add_participant ::
  "server_context_t \<Rightarrow> nat option \<Rightarrow> nat option \<Rightarrow> 32 word \<Rightarrow> server_context_t \<times> int" where
  "room_add_participant ctx rp cp now =
     (case (rp, cp) of
        (Some r, Some c) \<Rightarrow>
          (let rm = rooms ctx ! r; cl = clients ctx ! c in
           if room_is_full ctx rp then (ctx, -1)
           else if room_find_participant ctx rp (Some (c_id cl)) \<noteq> None then (ctx, -2)
           else if c_room cl \<noteq> None \<and> c_room cl \<noteq> Some r then (ctx, -3)
           else
             (case first_index (\<lambda>p. p_client p = None)
                     (take MAX_PARTICIPANTS (r_participants rm)) of
                Some i \<Rightarrow>
                  (ctx\<lparr>rooms := (rooms ctx)
                          [r := rm\<lparr>r_participants := (r_participants rm)
                                     [i := \<lparr>p_client = Some c, p_join_time = now,
                                            p_is_owner = (r_owner rm = Some c)\<rparr>],
                                   r_participant_count := r_participant_count rm + 1,
                                   r_last_activity := now\<rparr>],
                       clients := (clients ctx)
                          [c := cl\<lparr>c_room := Some r, c_state := CLIENT_STATE_IN_ROOM\<rparr>]\<rparr>,
                   0)
              | None \<Rightarrow> (ctx, -4)))
      | _ \<Rightarrow> (ctx, -1))"

text \<open>
  The owner transfer inside \<open>room_remove_participant\<close>: the inner loop over the slots
  left after the removal, run only when the owner left and the count is still positive.
\<close>

definition transfer_owner :: "room_t \<Rightarrow> room_t" where
  "transfer_owner rm =
     (case first_index (\<lambda>p. p_client p \<noteq> None)
             (take MAX_PARTICIPANTS (r_participants rm)) of
        Some j \<Rightarrow>
          rm\<lparr>r_owner := p_client (r_participants rm ! j),
             r_participants := (r_participants rm)
               [j := (r_participants rm ! j)\<lparr>p_is_owner := True\<rparr>]\<rparr>
      | None \<Rightarrow> rm)"

text \<open>
  The body of the loop of \<open>room_remove_participant\<close> at the slot \<open>i\<close> that holds the
  client, as far as the room goes: the slot is cleared, the count decremented, and the
  ownership handed on when the owner left a room that still counts participants.
\<close>

definition remove_at :: "room_t \<Rightarrow> nat \<Rightarrow> nat \<Rightarrow> 32 word \<Rightarrow> room_t" where
  "remove_at rm c i now =
     (let rm1 = rm\<lparr>r_participants := (r_participants rm)
                     [i := (r_participants rm ! i)\<lparr>p_client := None, p_is_owner := False\<rparr>],
                   r_participant_count := r_participant_count rm - 1,
                   r_last_activity := now\<rparr>
      in if r_owner rm1 = Some c \<and> 0 < r_participant_count rm1
         then transfer_owner rm1 else rm1)"

definition room_remove_participant ::
  "server_context_t \<Rightarrow> nat option \<Rightarrow> nat option \<Rightarrow> 32 word \<Rightarrow> server_context_t \<times> int" where
  "room_remove_participant ctx rp cp now =
     (case (rp, cp) of
        (Some r, Some c) \<Rightarrow>
          (let rm = rooms ctx ! r; cl = clients ctx ! c in
           case first_index (\<lambda>p. p_client p = Some c)
                  (take MAX_PARTICIPANTS (r_participants rm)) of
             Some i \<Rightarrow>
               (ctx\<lparr>rooms := (rooms ctx)[r := remove_at rm c i now],
                    clients := (clients ctx)
                      [c := cl\<lparr>c_room := None, c_state := CLIENT_STATE_CONNECTED\<rparr>]\<rparr>,
                0)
           | None \<Rightarrow> (ctx, -1))
      | _ \<Rightarrow> (ctx, -1))"

text \<open>The loop of \<open>room_cleanup\<close>: every client still in a slot loses its back-reference.\<close>

fun cleanup_loop :: "client_t list \<Rightarrow> participant_t list \<Rightarrow> client_t list" where
  "cleanup_loop cs [] = cs"
| "cleanup_loop cs (p # ps) =
     (case p_client p of
        Some k \<Rightarrow>
          cleanup_loop (cs[k := (cs ! k)\<lparr>c_room := None, c_state := CLIENT_STATE_CONNECTED\<rparr>]) ps
      | None \<Rightarrow> cleanup_loop cs ps)"

definition room_cleanup :: "server_context_t \<Rightarrow> nat option \<Rightarrow> server_context_t" where
  "room_cleanup ctx rp =
     (case rp of
        None \<Rightarrow> ctx
      | Some r \<Rightarrow>
          (let rm = rooms ctx ! r in
           ctx\<lparr>clients := cleanup_loop (clients ctx)
                             (take MAX_PARTICIPANTS (r_participants rm)),
               rooms := (rooms ctx)
                  [r := rm\<lparr>r_participant_count := 0, r_state := ROOM_STATE_CLOSING,
                           r_owner := None\<rparr>]\<rparr>))"

definition room_init ::
  "server_context_t \<Rightarrow> nat option \<Rightarrow> string option \<Rightarrow> nat option \<Rightarrow> (nat \<Rightarrow> 32 word)
     \<Rightarrow> 32 word \<Rightarrow> server_context_t" where
  "room_init ctx rp name ownr rs now =
     (case rp of
        None \<Rightarrow> ctx
      | Some r \<Rightarrow>
          (let rm = zero_room\<lparr>r_id := generate_uuid rs 37,
                      r_name := (case name of
                                   Some n \<Rightarrow> safe_strncpy n 64
                                 | None \<Rightarrow> safe_strncpy ''Unnamed Room'' 64),
                      r_state := ROOM_STATE_ACTIVE, r_created_at := now,
                      r_last_activity := now, r_owner := ownr\<rparr>;
               ctx1 = ctx\<lparr>rooms := (rooms ctx)[r := rm]\<rparr>
           in if ownr \<noteq> None then fst (room_add_participant ctx1 rp ownr now) else ctx1))"

text \<open>The loop of \<open>room_broadcast_message\<close>, with the count of successful sends.\<close>

fun broadcast_loop ::
  "extern \<Rightarrow> server_context_t \<Rightarrow> nat option \<Rightarrow> string \<Rightarrow> string option
     \<Rightarrow> participant_t list \<Rightarrow> int \<Rightarrow> server_context_t \<times> int" where
  "broadcast_loop E ctx exclude ev dat [] sent_count = (ctx, sent_count)"
| "broadcast_loop E ctx exclude ev dat (p # ps) sent_count =
     (case p_client p of
        None \<Rightarrow> broadcast_loop E ctx exclude ev dat ps sent_count
      | Some k \<Rightarrow>
          if Some k = exclude \<or> \<not> c_is_alive (clients ctx ! k)
          then broadcast_loop E ctx exclude ev dat ps sent_count
          else
            (let (ctx1, ret) = client_send_message E ctx k ev dat
             in broadcast_loop E ctx1 exclude ev dat ps
                  (if ret > 0 then sent_count + 1 else sent_count)))"

definition room_broadcast_message ::
  "extern \<Rightarrow> server_context_t \<Rightarrow> nat option \<Rightarrow> nat option \<Rightarrow> string option \<Rightarrow> string option
     \<Rightarrow> 32 word \<Rightarrow> server_context_t \<times> int" where
  "room_broadcast_message E ctx rp exclude ev dat now =
     (case (rp, ev) of
        (Some r, Some e) \<Rightarrow>
          (let (ctx1, sent_count) =
                 broadcast_loop E ctx exclude e dat
                   (take MAX_PARTICIPANTS (r_participants (rooms ctx ! r))) 0
           in (ctx1\<lparr>rooms := (rooms ctx1)
                       [r := (rooms ctx1 ! r)\<lparr>r_last_activity := now\<rparr>]\<rparr>, sent_count))
      | _ \<Rightarrow> (ctx, 0))"

definition room_registry_create ::
  "server_context_t \<Rightarrow> string option \<Rightarrow> nat option \<Rightarrow> (nat \<Rightarrow> 32 word) \<Rightarrow> 32 word
     \<Rightarrow> server_context_t \<times> nat option" where
  "room_registry_create ctx name ownr rs now =
     (case name of
        None \<Rightarrow> (ctx, None)
      | Some _ \<Rightarrow>
          (case first_index (\<lambda>rm. r_state rm \<noteq> ROOM_STATE_ACTIVE) (rooms ctx) of
             Some i \<Rightarrow>
               (let ctx1 = room_init ctx (Some i) name ownr rs now
                in (ctx1\<lparr>active_rooms := active_rooms ctx1 + 1,
                         total_rooms_created := total_rooms_created ctx1 + 1\<rparr>, Some i))
           | None \<Rightarrow> (ctx, None)))"

definition room_registry_find_by_id :: "server_context_t \<Rightarrow> string option \<Rightarrow> nat option" where
  "room_registry_find_by_id ctx room_id =
     (case room_id of
        None \<Rightarrow> None
      | Some rid \<Rightarrow>
          first_index (\<lambda>rm. r_state rm = ROOM_STATE_ACTIVE \<and> r_id rm = rid) (rooms ctx))"

text \<open>The loop of \<open>room_registry_remove_empty_rooms\<close> over the room indices.\<close>

fun remove_empty_loop :: "server_context_t \<Rightarrow> nat list \<Rightarrow> server_context_t" where
  "remove_empty_loop ctx [] = ctx"
| "remove_empty_loop ctx (i # is) =
     (if r_state (rooms ctx ! i) = ROOM_STATE_ACTIVE \<and> room_is_empty ctx (Some i)
      then remove_empty_loop
             ((room_cleanup ctx (Some i))\<lparr>active_rooms := active_rooms ctx - 1\<rparr>) is
      else remove_empty_loop ctx is)"

definition room_registry_remove_empty_rooms :: "server_context_t \<Rightarrow> server_context_t" where
  "room_registry_remove_empty_rooms ctx = remove_empty_loop ctx [0 ..< length (rooms ctx)]"

section \<open>\<open>server.c\<close>\<close>

definition EVENT_CLIENT_ID :: string where "EVENT_CLIENT_ID = ''client-id''"
definition EVENT_JOIN_ROOM :: string where "EVENT_JOIN_ROOM = ''join-room''"
definition EVENT_LEAVE_ROOM :: string where "EVENT_LEAVE_ROOM = ''leave-room''"
definition EVENT_OFFER :: string where "EVENT_OFFER = ''offer''"
definition EVENT_ANSWER :: string where "EVENT_ANSWER = ''answer''"
definition EVENT_ICE_CANDIDATE :: string where "EVENT_ICE_CANDIDATE = ''ice-candidate''"
definition EVENT_PARTICIPANTS_LIST :: string where "EVENT_PARTICIPANTS_LIST = ''participants''"
definition EVENT_ROOM_CREATED :: string where "EVENT_ROOM_CREATED = ''room-created''"
definition EVENT_ERROR :: string where "EVENT_ERROR = ''error''"

text \<open>
  The loop that \<open>handle_join_room\<close> and \<open>handle_leave_room\<close> both run to collect the
  identifiers of the clients in the slots of a room, in slot order.
\<close>

fun participant_ids :: "client_t list \<Rightarrow> participant_t list \<Rightarrow> json list" where
  "participant_ids cs [] = []"
| "participant_ids cs (p # ps) =
     (case p_client p of
        Some k \<Rightarrow> JString (c_id (cs ! k)) # participant_ids cs ps
      | None \<Rightarrow> participant_ids cs ps)"

definition participants_data :: "server_context_t \<Rightarrow> nat \<Rightarrow> json" where
  "participants_data ctx r =
     JObject [(''roomId'', JString (r_id (rooms ctx ! r))),
              (''participants'',
               JArray (participant_ids (clients ctx)
                         (take MAX_PARTICIPANTS (r_participants (rooms ctx ! r)))))]"

definition handle_leave_room ::
  "extern \<Rightarrow> server_context_t \<Rightarrow> nat \<Rightarrow> 32 word \<Rightarrow> server_context_t" where
  "handle_leave_room E ctx c now =
     (case c_room (clients ctx ! c) of
        None \<Rightarrow> ctx
      | Some r \<Rightarrow>
          (let ctx1 = fst (room_remove_participant ctx (Some r) (Some c) now) in
           if \<not> room_is_empty ctx1 (Some r)
           then fst (room_broadcast_message E ctx1 (Some r) None (Some EVENT_PARTICIPANTS_LIST)
                       (ext_json_dumps E (participants_data ctx1 r)) now)
           else ctx1))"

text \<open>
  The end of \<open>handle_join_room\<close>, from the comment \<open>Join room\<close> on, which both the branch
  that found the room and the branch that created it reach.
\<close>

definition join_room_tail ::
  "extern \<Rightarrow> server_context_t \<Rightarrow> nat \<Rightarrow> nat \<Rightarrow> 32 word \<Rightarrow> server_context_t" where
  "join_room_tail E ctx r c now =
     (let (ctx1, ret) = room_add_participant ctx (Some r) (Some c) now in
      if ret \<noteq> 0
      then fst (client_send_message E ctx1 c EVENT_ERROR
                  (Some ''Room is full (max 6 participants)''))
      else fst (room_broadcast_message E ctx1 (Some r) None (Some EVENT_PARTICIPANTS_LIST)
                  (ext_json_dumps E (participants_data ctx1 r)) now))"

definition handle_join_room ::
  "extern \<Rightarrow> server_context_t \<Rightarrow> nat \<Rightarrow> json option \<Rightarrow> (nat \<Rightarrow> 32 word) \<Rightarrow> 32 word
     \<Rightarrow> server_context_t" where
  "handle_join_room E ctx c dat rs now =
     (let room_id =
            (if dat \<noteq> None
             then (let room_id_json = json_object_get dat ''roomId''
                   in if room_id_json \<noteq> None then json_string_value room_id_json else None)
             else None);
          room_name =
            (if dat \<noteq> None
             then (let room_name_json = json_object_get dat ''roomName''
                   in if room_name_json \<noteq> None then json_string_value room_name_json
                      else Some ''Unnamed Room'')
             else Some ''Unnamed Room'');
          ctx1 = handle_leave_room E ctx c now;
          room = (if room_id \<noteq> None then room_registry_find_by_id ctx1 room_id else None)
      in case room of
           Some r \<Rightarrow> join_room_tail E ctx1 r c now
         | None \<Rightarrow>
             (let (ctx2, created) = room_registry_create ctx1 room_name (Some c) rs now in
              case created of
                None \<Rightarrow> fst (client_send_message E ctx2 c EVENT_ERROR (Some ''Cannot create room''))
              | Some r \<Rightarrow>
                  (let room_data = JObject [(''roomId'', JString (r_id (rooms ctx2 ! r))),
                                            (''roomName'', JString (r_name (rooms ctx2 ! r)))];
                       ctx3 = fst (client_send_message E ctx2 c EVENT_ROOM_CREATED
                                     (ext_json_dumps E room_data))
                   in join_room_tail E ctx3 r c now)))"

text \<open>
  \<open>json_object_set_new\<close> with a \<open>NULL\<close> value adds nothing, so the forwarded object
  carries the payload key only when the request had it.
\<close>

definition forwarded :: "string \<Rightarrow> string \<Rightarrow> json option \<Rightarrow> json" where
  "forwarded from_id key dat =
     JObject ((''fromClientId'', JString from_id) #
              (case json_object_get dat key of Some v \<Rightarrow> [(key, v)] | None \<Rightarrow> []))"

definition handle_offer_message ::
  "extern \<Rightarrow> server_context_t \<Rightarrow> nat \<Rightarrow> json option \<Rightarrow> server_context_t" where
  "handle_offer_message E ctx c dat =
     (let cl = clients ctx ! c in
      if c_room cl = None
      then fst (client_send_message E ctx c EVENT_ERROR (Some ''Not in a room''))
      else
        (let target_json = json_object_get dat ''targetClientId'';
             target_client_id =
               (if target_json \<noteq> None then json_string_value target_json else None)
         in if target_client_id = None
            then fst (client_send_message E ctx c EVENT_ERROR (Some ''Missing target client ID''))
            else
              (case room_find_participant ctx (c_room cl) target_client_id of
                 None \<Rightarrow>
                   fst (client_send_message E ctx c EVENT_ERROR
                          (Some ''Target client not found in room''))
               | Some target \<Rightarrow>
                   fst (client_send_message E ctx target EVENT_OFFER
                          (ext_json_dumps E (forwarded (c_id cl) ''offer'' dat))))))"

definition handle_answer_message ::
  "extern \<Rightarrow> server_context_t \<Rightarrow> nat \<Rightarrow> json option \<Rightarrow> server_context_t" where
  "handle_answer_message E ctx c dat =
     (let cl = clients ctx ! c in
      if c_room cl = None
      then fst (client_send_message E ctx c EVENT_ERROR (Some ''Not in a room''))
      else
        (let target_json = json_object_get dat ''targetClientId'';
             target_client_id =
               (if target_json \<noteq> None then json_string_value target_json else None)
         in if target_client_id = None
            then fst (client_send_message E ctx c EVENT_ERROR (Some ''Missing target client ID''))
            else
              (case room_find_participant ctx (c_room cl) target_client_id of
                 None \<Rightarrow>
                   fst (client_send_message E ctx c EVENT_ERROR
                          (Some ''Target client not found in room''))
               | Some target \<Rightarrow>
                   fst (client_send_message E ctx target EVENT_ANSWER
                          (ext_json_dumps E (forwarded (c_id cl) ''answer'' dat))))))"

definition handle_ice_candidate ::
  "extern \<Rightarrow> server_context_t \<Rightarrow> nat \<Rightarrow> json option \<Rightarrow> server_context_t" where
  "handle_ice_candidate E ctx c dat =
     (let cl = clients ctx ! c in
      if c_room cl = None
      then fst (client_send_message E ctx c EVENT_ERROR (Some ''Not in a room''))
      else
        (let target_json = json_object_get dat ''targetClientId'';
             target_client_id =
               (if target_json \<noteq> None then json_string_value target_json else None)
         in if target_client_id = None
            then fst (client_send_message E ctx c EVENT_ERROR (Some ''Missing target client ID''))
            else
              (case room_find_participant ctx (c_room cl) target_client_id of
                 None \<Rightarrow>
                   fst (client_send_message E ctx c EVENT_ERROR
                          (Some ''Target client not found in room''))
               | Some target \<Rightarrow>
                   fst (client_send_message E ctx target EVENT_ICE_CANDIDATE
                          (ext_json_dumps E (forwarded (c_id cl) ''candidate'' dat))))))"

definition process_client_message ::
  "extern \<Rightarrow> server_context_t \<Rightarrow> nat option \<Rightarrow> string \<Rightarrow> json option \<Rightarrow> (nat \<Rightarrow> 32 word)
     \<Rightarrow> 32 word \<Rightarrow> server_context_t" where
  "process_client_message E ctx wsi ev dat rs now =
     (case client_registry_find_by_wsi ctx wsi of
        None \<Rightarrow> ctx
      | Some c \<Rightarrow>
          (let ctx1 = ctx\<lparr>total_messages := total_messages ctx + 1\<rparr> in
           if ev = EVENT_JOIN_ROOM then handle_join_room E ctx1 c dat rs now
           else if ev = EVENT_LEAVE_ROOM then handle_leave_room E ctx1 c now
           else if ev = EVENT_OFFER then handle_offer_message E ctx1 c dat
           else if ev = EVENT_ANSWER then handle_answer_message E ctx1 c dat
           else if ev = EVENT_ICE_CANDIDATE then handle_ice_candidate E ctx1 c dat
           else ctx1\<lparr>total_errors := total_errors ctx1 + 1\<rparr>))"

datatype lws_callback_reasons =
    LWS_CALLBACK_ESTABLISHED
  | LWS_CALLBACK_RECEIVE
  | LWS_CALLBACK_CLOSED
  | LWS_CALLBACK_OTHER

text \<open>
  \<open>webrtc_protocol_callback\<close>. The connection \<open>wsi\<close> is dereferenced on entry, so it is
  never \<open>NULL\<close>; \<open>inp\<close> is the received frame, \<open>now_ms\<close> the reading of
  \<open>get_timestamp_ms\<close>. The result of \<open>message_queue_push\<close> is not looked at.
\<close>

definition webrtc_protocol_callback ::
  "extern \<Rightarrow> server_context_t \<Rightarrow> nat \<Rightarrow> lws_callback_reasons \<Rightarrow> string \<Rightarrow> (nat \<Rightarrow> 32 word)
     \<Rightarrow> 32 word \<Rightarrow> 64 word \<Rightarrow> server_context_t" where
  "webrtc_protocol_callback E ctx wsi reason inp rs now now_ms =
     (case reason of
        LWS_CALLBACK_ESTABLISHED \<Rightarrow>
          (let (ctx1, client) = client_registry_add ctx (Some wsi) rs now in
           case client of
             Some c \<Rightarrow>
               (let dat = JObject [(''clientId'', JString (c_id (clients ctx1 ! c)))]
                in fst (client_send_message E ctx1 c EVENT_CLIENT_ID (ext_json_dumps E dat)))
           | None \<Rightarrow> ctx1)
      | LWS_CALLBACK_RECEIVE \<Rightarrow>
          (case client_registry_find_by_wsi ctx (Some wsi) of
             Some c \<Rightarrow>
               (let ctx1 = ctx\<lparr>clients := (clients ctx)
                                 [c := client_update_activity (clients ctx ! c) now]\<rparr>
                in case message_deserialize (ext_json_loads E inp) of
                     Some msg \<Rightarrow>
                       ctx1\<lparr>msg_queue :=
                              fst (message_queue_push (msg_queue ctx1) (Some wsi) msg now_ms)\<rparr>
                   | None \<Rightarrow> ctx1\<lparr>total_errors := total_errors ctx1 + 1\<rparr>)
           | None \<Rightarrow> ctx)
      | LWS_CALLBACK_CLOSED \<Rightarrow>
          (case client_registry_find_by_wsi ctx (Some wsi) of
             Some c \<Rightarrow> client_registry_remove (handle_leave_room E ctx c now) (Some c)
           | None \<Rightarrow> ctx)
      | LWS_CALLBACK_OTHER \<Rightarrow> ctx)"

text \<open>
  The reaper of \<open>server_run\<close>: the block that runs once the queue is drained.
  \<open>last_cleanup\<close> is the function's static variable, returned with the context.
\<close>

fun timeout_loop :: "server_context_t \<Rightarrow> 32 word \<Rightarrow> nat list \<Rightarrow> server_context_t" where
  "timeout_loop ctx now [] = ctx"
| "timeout_loop ctx now (i # is) =
     (if c_is_alive (clients ctx ! i)
         \<and> client_is_timed_out (clients ctx ! i) (client_timeout_sec ctx) now
      then timeout_loop (client_registry_remove ctx (Some i)) now is
      else timeout_loop ctx now is)"

definition server_run_cleanup ::
  "server_context_t \<Rightarrow> 32 word \<Rightarrow> 32 word \<Rightarrow> server_context_t \<times> 32 word" where
  "server_run_cleanup ctx last_cleanup now =
     (if now - last_cleanup \<ge> 10
      then (room_registry_remove_empty_rooms
              (timeout_loop ctx now [0 ..< length (clients ctx)]), now)
      else (ctx, last_cleanup))"

text \<open>
  \<open>server_init\<close> as far as the registries and the queue go: the arrays come from
  \<open>calloc\<close>, the queue has 1024 slots.
\<close>

definition server_init :: "nat \<Rightarrow> nat \<Rightarrow> 32 word \<Rightarrow> server_context_t" where
  "server_init max_clients max_rooms timeout_sec =
     \<lparr>clients = replicate max_clients zero_client, active_count = 0, total_connections = 0,
      rooms = replicate max_rooms zero_room, active_rooms = 0, total_rooms_created = 0,
      msg_queue = message_queue_init 1024, client_timeout_sec = timeout_sec,
      total_messages = 0, total_errors = 0, running = False, sent = []\<rparr>"

section \<open>Vocabulary of the claims\<close>

text \<open>The owner of a room, when the room has one, sits in one of the room's slots.\<close>

definition owner_present :: "room_t \<Rightarrow> bool" where
  "owner_present rm =
     (case r_owner rm of
        None \<Rightarrow> True
      | Some k \<Rightarrow> (\<exists>p\<in>set (r_participants rm). p_client p = Some k))"

text \<open>
  A handler answers with one \<open>error\<close> envelope to client \<open>c\<close> and does nothing else that
  the other clients, the rooms or the queue could see.
\<close>

definition replies_error_only ::
  "server_context_t \<Rightarrow> nat \<Rightarrow> string \<Rightarrow> server_context_t \<Rightarrow> bool" where
  "replies_error_only ctx c reason ctx' \<longleftrightarrow>
     sent ctx' = sent ctx @ [(c, \<lparr>m_event = ''error'', m_data = Some (JString reason)\<rparr>)]
     \<and> rooms ctx' = rooms ctx
     \<and> msg_queue ctx' = msg_queue ctx"

section \<open>An example run\<close>

text \<open>
  A server with two client slots and one room slot, followed from \<open>server_init\<close>. The
  JSON library of the example parses every frame into an object whose \<open>event\<close> is the
  frame's text and serialises every value to the same text; every write succeeds.
\<close>

definition demo_extern :: extern where
  "demo_extern =
     \<lparr>ext_json_loads = (\<lambda>s. Some (JObject [(''event'', JString s)])),
      ext_json_dumps = (\<lambda>j. Some ''payload''),
      ext_lws_write = (\<lambda>w m. 1)\<rparr>"

text \<open>
  The arrays come out of \<open>calloc\<close> with every room in state 0, which is
  \<open>ROOM_STATE_ACTIVE\<close>; the first pass of the reaper closes them.
\<close>

definition demo_boot :: server_context_t where
  "demo_boot = fst (server_run_cleanup (server_init 2 1 30) 0 100)"

text \<open>Client A connects on connection 7.\<close>

definition demo_connected :: server_context_t where
  "demo_connected =
     webrtc_protocol_callback demo_extern demo_boot 7 LWS_CALLBACK_ESTABLISHED []
       (\<lambda>_. 0) 100 0"

text \<open>A sends \<open>join-room\<close> without data.\<close>

definition demo_joined :: server_context_t where
  "demo_joined =
     process_client_message demo_extern demo_connected (Some 7) EVENT_JOIN_ROOM None
       (\<lambda>_. 1) 101"

text \<open>Client B connects on connection 8 and joins the room of A by its identifier.\<close>

definition demo_second :: server_context_t where
  "demo_second =
     webrtc_protocol_callback demo_extern demo_joined 8 LWS_CALLBACK_ESTABLISHED []
       (\<lambda>_. 2) 102 0"

definition demo_two :: server_context_t where
  "demo_two =
     process_client_message demo_extern demo_second (Some 8) EVENT_JOIN_ROOM
       (Some (JObject [(''roomId'', JString ''00000001-0001-4001-8001-000000010001'')]))
       (\<lambda>_. 3) 103"

text \<open>The records the example run passes through, written out.\<close>

definition demo_msg :: "string \<Rightarrow> string \<Rightarrow> message_t" where
  "demo_msg ev s = \<lparr>m_event = ev, m_data = Some (JString s)\<rparr>"

definition demo_client_A :: client_t where
  "demo_client_A =
     \<lparr>c_id = ''00000000-0000-4000-8000-000000000000'', c_wsi = Some 7, c_room = None,
      c_state = CLIENT_STATE_CONNECTED, c_last_activity = 100, c_connect_time = 100,
      c_messages_sent = 1, c_messages_received = 0, c_is_alive = True\<rparr>"

definition demo_client_B :: client_t where
  "demo_client_B =
     \<lparr>c_id = ''00000002-0002-4002-8002-000000020002'', c_wsi = Some 8, c_room = None,
      c_state = CLIENT_STATE_CONNECTED, c_last_activity = 102, c_connect_time = 102,
      c_messages_sent = 1, c_messages_received = 0, c_is_alive = True\<rparr>"

definition demo_room :: room_t where
  "demo_room =
     \<lparr>r_id = ''00000001-0001-4001-8001-000000010001'', r_name = ''Unnamed Room'',
      r_participants =
        [\<lparr>p_client = Some 0, p_join_time = 101, p_is_owner = True\<rparr>,
         zero_participant, zero_participant, zero_participant, zero_participant,
         zero_participant],
      r_participant_count = 1, r_state = ROOM_STATE_ACTIVE, r_created_at = 101,
      r_last_activity = 101, r_owner = Some 0\<rparr>"

text \<open>
  A state of the data model with a full room: clients 0 to 5 sit in room 0, clients 6
  and 7 in room 1.
\<close>

definition demo_member :: "nat \<Rightarrow> nat \<Rightarrow> client_t" where
  "demo_member n rm =
     \<lparr>c_id = replicate (Suc n) (CHR ''x''), c_wsi = Some (10 + n), c_room = Some rm,
      c_state = CLIENT_STATE_IN_ROOM, c_last_activity = 100, c_connect_time = 100,
      c_messages_sent = 0, c_messages_received = 0, c_is_alive = True\<rparr>"

definition demo_slot :: "nat \<Rightarrow> bool \<Rightarrow> participant_t" where
  "demo_slot n ownr = \<lparr>p_client = Some n, p_join_time = 100, p_is_owner = ownr\<rparr>"

definition demo_full :: server_context_t where
  "demo_full =
     \<lparr>clients = [demo_member 0 0, demo_member 1 0, demo_member 2 0, demo_member 3 0,
                 demo_member 4 0, demo_member 5 0, demo_member 6 1, demo_member 7 1],
      active_count = 8, total_connections = 8,
      rooms =
        [\<lparr>r_id = ''room-full'', r_name = ''full'',
          r_participants = [demo_slot 0 True, demo_slot 1 False, demo_slot 2 False,
                            demo_slot 3 False, demo_slot 4 False, demo_slot 5 False],
          r_participant_count = 6, r_state = ROOM_STATE_ACTIVE, r_created_at = 100,
          r_last_activity = 100, r_owner = Some 0\<rparr>,
         \<lparr>r_id = ''room-two'', r_name = ''two'',
          r_participants = [demo_slot 6 True, demo_slot 7 False, zero_participant,
                            zero_participant, zero_participant, zero_participant],
          r_participant_count = 2, r_state = ROOM_STATE_ACTIVE, r_created_at = 100,
          r_last_activity = 100, r_owner = Some 6\<rparr>],
      active_rooms = 2, total_rooms_created = 2, msg_queue = message_queue_init 1024,
      client_timeout_sec = 30, total_messages = 0, total_errors = 0, running = True,
      sent = []\<rparr>"

text \<open>
  The example run after A connected, with the ingress queue filled to its capacity of
  1024 by frames of A that the dispatcher has not drained yet.
\<close>

definition demo_flooded :: server_context_t where
  "demo_flooded =
     demo_connected
       \<lparr>msg_queue :=
          \<lparr>q_messages =
             replicate 1024
               \<lparr>ws_wsi = Some 7,
                ws_message = Some \<lparr>m_event = ''leave-room'', m_data = None\<rparr>,
                ws_timestamp = 5\<rparr>,
           q_capacity = 1024, q_head = 0, q_tail = 0, q_count = 1024\<rparr>\<rparr>"

section \<open>Auxiliary facts\<close>

subsection \<open>Scanning loops\<close>

lemma first_index_Some_iff:
  "first_index P xs = Some i \<longleftrightarrow> i < length xs \<and> P (xs ! i) \<and> (\<forall>j<i. \<not> P (xs ! j))"
proof (induction xs arbitrary: i)
  case Nil
  then show ?case by simp
next
  case (Cons x xs)
  show ?case
  proof (cases "P x")
    case True
    then show ?thesis by (cases i) auto
  next
    case False
    show ?thesis
    proof (cases i)
      case 0
      with False show ?thesis by auto
    next
      case (Suc k)
      with False Cons.IH [of k] show ?thesis
        by (auto simp: less_Suc_eq_0_disj)
    qed
  qed
qed

lemma first_index_None_iff: "first_index P xs = None \<longleftrightarrow> (\<forall>x\<in>set xs. \<not> P x)"
  by (induction xs) auto

lemma first_index_exists:
  assumes "x \<in> set xs" and "P x"
  obtains i where "first_index P xs = Some i"
  using assms first_index_None_iff [of P xs] by (cases "first_index P xs") auto

lemma length_filter_update:
  "i < length xs \<Longrightarrow>
     length (filter P (xs[i := y])) + (if P (xs ! i) then 1 else 0)
       = length (filter P xs) + (if P y then 1 else 0)"
proof (induction xs arbitrary: i)
  case Nil
  then show ?case by simp
next
  case (Cons x xs)
  then show ?case by (cases i) auto
qed

lemma filter_pos_length: "0 < length (filter P xs) \<longleftrightarrow> (\<exists>x\<in>set xs. P x)"
  by (simp add: filter_empty_conv)

lemma free_slot_exists:
  assumes len: "length ps = MAX_PARTICIPANTS"
      and cnt: "n = length (filter (\<lambda>p. p_client p \<noteq> None) ps)"
      and room: "n < MAX_PARTICIPANTS"
  shows "\<exists>i. first_index (\<lambda>p. p_client p = None) (take MAX_PARTICIPANTS ps) = Some i"
proof (rule ccontr)
  assume "\<not> ?thesis"
  then have "first_index (\<lambda>p. p_client p = None) (take MAX_PARTICIPANTS ps) = None"
    by (cases "first_index (\<lambda>p. p_client p = None) (take MAX_PARTICIPANTS ps)") auto
  then have "\<forall>p\<in>set ps. p_client p \<noteq> None"
    using len by (simp add: first_index_None_iff)
  then have "filter (\<lambda>p. p_client p \<noteq> None) ps = ps"
    by (simp add: filter_id_conv)
  with cnt len room show False by simp
qed

subsection \<open>The example run, state by state\<close>

lemma to_hex_0: "to_hex 0 = ''0''"
  by (simp add: to_hex.simps hex_digit_def)

lemma to_hex_1: "to_hex (Suc 0) = ''1''"
  by (simp add: to_hex.simps hex_digit_def)

lemma to_hex_2: "to_hex 2 = ''2''"
  by (simp add: to_hex.simps hex_digit_def)

lemma to_hex_8000: "to_hex 32768 = ''8000''"
  by (simp add: to_hex.simps [of 32768] to_hex.simps [of 2048] to_hex.simps [of 128]
      to_hex.simps [of 8] hex_digit_def)

lemma to_hex_8001: "to_hex 32769 = ''8001''"
  by (simp add: to_hex.simps [of 32769] to_hex.simps [of 2048] to_hex.simps [of 128]
      to_hex.simps [of 8] hex_digit_def)

lemma to_hex_8002: "to_hex 32770 = ''8002''"
  by (simp add: to_hex.simps [of 32770] to_hex.simps [of 2048] to_hex.simps [of 128]
      to_hex.simps [of 8] hex_digit_def)

lemma uuid_0: "generate_uuid (\<lambda>_. 0) 37 = ''00000000-0000-4000-8000-000000000000''"
  by (simp add: generate_uuid_def printf_0x_def to_hex_0 to_hex_8000)
    (simp add: numeral_eq_Suc)

lemma uuid_1: "generate_uuid (\<lambda>_. 1) 37 = ''00000001-0001-4001-8001-000000010001''"
  by (simp add: generate_uuid_def printf_0x_def to_hex_1 to_hex_8001)
    (simp add: numeral_eq_Suc)

lemma uuid_2: "generate_uuid (\<lambda>_. 2) 37 = ''00000002-0002-4002-8002-000000020002''"
  by (simp add: generate_uuid_def printf_0x_def to_hex_2 to_hex_8002)
    (simp add: numeral_eq_Suc)

lemma replicate_2: "replicate 2 x = [x, x]"
  by (simp add: numeral_2_eq_2)

lemma replicate_6: "replicate 6 x = [x, x, x, x, x, x]"
  by (simp add: numeral_eq_Suc)

lemma demo_boot_eq:
  "demo_boot =
     \<lparr>clients = [zero_client, zero_client], active_count = 0, total_connections = 0,
      rooms = [zero_room\<lparr>r_state := ROOM_STATE_CLOSING\<rparr>], active_rooms = - 1,
      total_rooms_created = 0, msg_queue = message_queue_init 1024, client_timeout_sec = 30,
      total_messages = 0, total_errors = 0, running = False, sent = []\<rparr>"
  unfolding demo_boot_def
  by (simp add: server_run_cleanup_def server_init_def room_registry_remove_empty_rooms_def
      room_is_empty_def room_cleanup_def zero_room_def zero_client_def zero_participant_def
      MAX_PARTICIPANTS_def replicate_2 replicate_6)

lemma demo_connected_eq:
  "demo_connected =
     demo_boot\<lparr>clients := [demo_client_A, zero_client], active_count := 1,
       total_connections := 1, sent := [(0, demo_msg ''client-id'' ''payload'')]\<rparr>"
  unfolding demo_connected_def demo_boot_eq
  by (simp add: webrtc_protocol_callback_def client_registry_add_def client_init_def
      client_send_message_def demo_extern_def uuid_0 zero_client_def EVENT_CLIENT_ID_def
      demo_client_A_def demo_msg_def)

lemma demo_joined_eq:
  "demo_joined =
     demo_boot\<lparr>clients := [demo_client_A\<lparr>c_room := Some 0, c_state := CLIENT_STATE_IN_ROOM,
                                         c_messages_sent := 3\<rparr>, zero_client],
       active_count := 1, total_connections := 1, rooms := [demo_room], active_rooms := 0,
       total_rooms_created := 1, total_messages := 1,
       sent := [(0, demo_msg ''client-id'' ''payload''),
                (0, demo_msg ''room-created'' ''payload''),
                (0, demo_msg ''error'' ''Room is full (max 6 participants)'')]\<rparr>"
  unfolding demo_joined_def demo_connected_eq demo_boot_eq
  by (simp add: process_client_message_def client_registry_find_by_wsi_def demo_client_A_def
      zero_client_def EVENT_JOIN_ROOM_def handle_join_room_def handle_leave_room_def
      room_registry_create_def zero_room_def room_init_def uuid_1 safe_strncpy_def
      room_add_participant_def room_is_full_def room_find_participant_def MAX_PARTICIPANTS_def
      replicate_6 zero_participant_def client_send_message_def demo_extern_def
      EVENT_ROOM_CREATED_def join_room_tail_def EVENT_ERROR_def demo_room_def demo_msg_def)

lemma demo_second_eq:
  "demo_second =
     demo_joined\<lparr>clients := [demo_client_A\<lparr>c_room := Some 0, c_state := CLIENT_STATE_IN_ROOM,
                                           c_messages_sent := 3\<rparr>, demo_client_B],
       active_count := 2, total_connections := 2,
       sent := sent demo_joined @ [(1, demo_msg ''client-id'' ''payload'')]\<rparr>"
  unfolding demo_second_def demo_joined_eq demo_boot_eq
  by (simp add: webrtc_protocol_callback_def client_registry_add_def client_init_def
      client_send_message_def demo_extern_def uuid_2 zero_client_def EVENT_CLIENT_ID_def
      demo_client_A_def demo_client_B_def demo_msg_def)

lemma demo_two_eq:
  "demo_two =
     demo_second\<lparr>clients := [demo_client_A\<lparr>c_room := Some 0, c_state := CLIENT_STATE_IN_ROOM,
                                           c_messages_sent := 4\<rparr>,
                                 demo_client_B\<lparr>c_room := Some 0, c_state := CLIENT_STATE_IN_ROOM,
                                           c_messages_sent := 2\<rparr>],
       rooms := [demo_room\<lparr>r_participants :=
                   [\<lparr>p_client = Some 0, p_join_time = 101, p_is_owner = True\<rparr>,
                    \<lparr>p_client = Some 1, p_join_time = 103, p_is_owner = False\<rparr>,
                    zero_participant, zero_participant, zero_participant, zero_participant],
                   r_participant_count := 2, r_last_activity := 103\<rparr>],
       total_messages := 2,
       sent := sent demo_second @ [(0, demo_msg ''participants'' ''payload''),
                                   (1, demo_msg ''participants'' ''payload'')]\<rparr>"
  unfolding demo_two_def demo_second_eq demo_joined_eq demo_boot_eq
  by (simp add: process_client_message_def client_registry_find_by_wsi_def demo_client_A_def
      demo_client_B_def EVENT_JOIN_ROOM_def handle_join_room_def handle_leave_room_def
      json_object_get_def json_string_value_def room_registry_find_by_id_def demo_room_def
      join_room_tail_def room_add_participant_def room_is_full_def room_find_participant_def
      MAX_PARTICIPANTS_def zero_participant_def room_broadcast_message_def
      participants_data_def client_send_message_def demo_extern_def EVENT_PARTICIPANTS_LIST_def
      demo_msg_def)

subsection \<open>Removing a participant\<close>

lemma transfer_owner_clients:
  "map p_client (r_participants (transfer_owner rm)) = map p_client (r_participants rm)"
proof (cases "first_index (\<lambda>p. p_client p \<noteq> None) (take MAX_PARTICIPANTS (r_participants rm))")
  case None
  then show ?thesis by (simp add: transfer_owner_def)
next
  case (Some j)
  then have "j < length (r_participants rm)"
    by (simp add: first_index_Some_iff)
  then have "(map p_client (r_participants rm))[j := p_client (r_participants rm ! j)]
               = map p_client (r_participants rm)"
    by (simp add: list_update_same_conv)
  with Some show ?thesis by (simp add: transfer_owner_def map_update)
qed

lemma transfer_owner_count:
  "r_participant_count (transfer_owner rm) = r_participant_count rm"
  by (simp add: transfer_owner_def split: option.split)

lemma transfer_owner_length:
  "length (r_participants (transfer_owner rm)) = length (r_participants rm)"
  by (simp add: transfer_owner_def split: option.split)

lemma transfer_owner_result:
  assumes occ: "\<exists>p\<in>set (take MAX_PARTICIPANTS (r_participants rm)). p_client p \<noteq> None"
  obtains j where "j < length (r_participants rm)" and "j < MAX_PARTICIPANTS"
      and "\<forall>k<j. p_client (r_participants rm ! k) = None"
      and "p_client (r_participants rm ! j) \<noteq> None"
      and "transfer_owner rm =
             rm\<lparr>r_owner := p_client (r_participants rm ! j),
                r_participants := (r_participants rm)
                  [j := (r_participants rm ! j)\<lparr>p_is_owner := True\<rparr>]\<rparr>"
proof -
  let ?ps = "take MAX_PARTICIPANTS (r_participants rm)"
  from occ obtain p where "p \<in> set ?ps" "p_client p \<noteq> None" by blast
  then obtain j where j: "first_index (\<lambda>p. p_client p \<noteq> None) ?ps = Some j"
    by (rule first_index_exists [where P = "\<lambda>p. p_client p \<noteq> None"])
  then have "j < length (r_participants rm)" "j < MAX_PARTICIPANTS"
    "\<forall>k<j. p_client (r_participants rm ! k) = None"
    "p_client (r_participants rm ! j) \<noteq> None"
    by (auto simp: first_index_Some_iff)
  moreover have "transfer_owner rm =
             rm\<lparr>r_owner := p_client (r_participants rm ! j),
                r_participants := (r_participants rm)
                  [j := (r_participants rm ! j)\<lparr>p_is_owner := True\<rparr>]\<rparr>"
    using j by (simp add: transfer_owner_def)
  ultimately show ?thesis by (rule that)
qed

lemma remove_at_clients:
  "i < length (r_participants rm) \<Longrightarrow>
   map p_client (r_participants (remove_at rm c i now))
     = (map p_client (r_participants rm))[i := None]"
  by (simp add: remove_at_def Let_def transfer_owner_clients map_update)

lemma remove_at_count:
  "r_participant_count (remove_at rm c i now) = r_participant_count rm - 1"
  by (simp add: remove_at_def Let_def transfer_owner_count)

lemma remove_at_length:
  "length (r_participants (remove_at rm c i now)) = length (r_participants rm)"
  by (simp add: remove_at_def Let_def transfer_owner_length)

lemma occupied_via_map:
  "length (filter (\<lambda>p. p_client p \<noteq> None) xs)
     = length (filter (\<lambda>x. x \<noteq> None) (map p_client xs))"
  by (induction xs) auto

lemma holds_via_map:
  "length (filter (\<lambda>p. p_client p = Some c) xs)
     = length (filter (\<lambda>x. x = Some c) (map p_client xs))"
  by (induction xs) auto

text \<open>The number of occupied slots goes down by one with the slot that is cleared.\<close>

lemma remove_at_occupied:
  assumes i: "i < length (r_participants rm)"
      and at: "p_client (r_participants rm ! i) \<noteq> None"
  shows "length (filter (\<lambda>p. p_client p \<noteq> None) (r_participants (remove_at rm c i now))) + 1
           = length (filter (\<lambda>p. p_client p \<noteq> None) (r_participants rm))"
proof -
  let ?cs = "map p_client (r_participants rm)"
  have "length (filter (\<lambda>x. x \<noteq> None) (?cs[i := None])) + (if ?cs ! i \<noteq> None then 1 else 0)
          = length (filter (\<lambda>x. x \<noteq> None) ?cs) + (if (None :: nat option) \<noteq> None then 1 else 0)"
    using i by (intro length_filter_update) simp
  with i at have "length (filter (\<lambda>x. x \<noteq> None) (?cs[i := None])) + 1
          = length (filter (\<lambda>x. x \<noteq> None) ?cs)"
    by simp
  then show ?thesis
    unfolding occupied_via_map remove_at_clients [OF i] .
qed

lemma remove_at_absent:
  assumes i: "i < length (r_participants rm)"
      and at: "p_client (r_participants rm ! i) = Some c"
      and once: "length (filter (\<lambda>p. p_client p = Some c) (r_participants rm)) = 1"
  shows "\<forall>p\<in>set (r_participants (remove_at rm c i now)). p_client p \<noteq> Some c"
proof -
  let ?cs = "map p_client (r_participants rm)"
  have "length (filter (\<lambda>x. x = Some c) (?cs[i := None])) + (if ?cs ! i = Some c then 1 else 0)
          = length (filter (\<lambda>x. x = Some c) ?cs) + (if None = Some c then 1 else 0)"
    using i by (intro length_filter_update) simp
  moreover have "length (filter (\<lambda>x. x = Some c) ?cs) = 1"
    using once unfolding holds_via_map .
  ultimately have "length (filter (\<lambda>x. x = Some c) (?cs[i := None])) = 0"
    using i at by simp
  then have "\<forall>x\<in>set (?cs[i := None]). x \<noteq> Some c"
    by (simp add: filter_empty_conv)
  then have "\<forall>x\<in>set (map p_client (r_participants (remove_at rm c i now))). x \<noteq> Some c"
    unfolding remove_at_clients [OF i] .
  then show ?thesis by auto
qed


lemma remove_at_slot:
  assumes i: "i < length (r_participants rm)"
  shows "p_client (r_participants (remove_at rm c i now) ! i) = None"
proof -
  have "map p_client (r_participants (remove_at rm c i now)) ! i = None"
    unfolding remove_at_clients [OF i] using i by simp
  then show ?thesis
    using i by (simp add: remove_at_length)
qed

text \<open>The owner leaves a room that still counts participants.\<close>

lemma remove_at_transfer:
  assumes len: "length (r_participants rm) = MAX_PARTICIPANTS"
      and i: "i < MAX_PARTICIPANTS"
      and at: "p_client (r_participants rm ! i) = Some c"
      and cnt: "unat (r_participant_count rm) =
                  length (filter (\<lambda>p. p_client p \<noteq> None) (r_participants rm))"
      and own: "r_owner rm = Some c"
      and pos: "0 < r_participant_count rm - 1"
  obtains j ps1 where "j < MAX_PARTICIPANTS"
      and "ps1 = (r_participants rm)
                   [i := (r_participants rm ! i)\<lparr>p_client := None, p_is_owner := False\<rparr>]"
      and "\<forall>k<j. p_client (ps1 ! k) = None"
      and "p_client (ps1 ! j) \<noteq> None"
      and "r_participants (remove_at rm c i now) = ps1[j := (ps1 ! j)\<lparr>p_is_owner := True\<rparr>]"
      and "r_owner (remove_at rm c i now) = p_client (ps1 ! j)"
proof -
  let ?ps = "r_participants rm"
  let ?cl = "(?ps ! i)\<lparr>p_client := None, p_is_owner := False\<rparr>"
  let ?ps1 = "?ps[i := ?cl]"
  let ?rm1 = "rm\<lparr>r_participants := ?ps1, r_participant_count := r_participant_count rm - 1,
                  r_last_activity := now\<rparr>"
  have il: "i < length ?ps" using i len by simp
  have eq: "remove_at rm c i now = transfer_owner ?rm1"
    using own pos by (simp add: remove_at_def)
  have "length (filter (\<lambda>p. p_client p \<noteq> None) ?ps1)
          + (if p_client (?ps ! i) \<noteq> None then 1 else 0)
        = length (filter (\<lambda>p. p_client p \<noteq> None) ?ps)
          + (if p_client ?cl \<noteq> None then 1 else 0)"
    using il by (rule length_filter_update)
  with at have occ1: "length (filter (\<lambda>p. p_client p \<noteq> None) ?ps1) + 1
                        = unat (r_participant_count rm)"
    using cnt by simp
  then have "r_participant_count rm \<noteq> 0"
    by (metis Suc_eq_plus1 nat.distinct(1) unat_0)
  then have "unat (r_participant_count rm - 1) = unat (r_participant_count rm) - 1"
    by (rule unat_minus_one)
  moreover from pos have "0 < unat (r_participant_count rm - 1)"
    by (simp add: word_greater_zero_iff unat_gt_0)
  ultimately have "0 < length (filter (\<lambda>p. p_client p \<noteq> None) ?ps1)"
    using occ1 by linarith
  then have "\<exists>p\<in>set ?ps1. p_client p \<noteq> None"
    unfolding filter_pos_length .
  then have "\<exists>p\<in>set (take MAX_PARTICIPANTS (r_participants ?rm1)). p_client p \<noteq> None"
    using len by simp
  then obtain j where j: "j < MAX_PARTICIPANTS"
      and before: "\<forall>k<j. p_client (r_participants ?rm1 ! k) = None"
      and here: "p_client (r_participants ?rm1 ! j) \<noteq> None"
      and tr: "transfer_owner ?rm1 =
             ?rm1\<lparr>r_owner := p_client (r_participants ?rm1 ! j),
                r_participants := (r_participants ?rm1)
                  [j := (r_participants ?rm1 ! j)\<lparr>p_is_owner := True\<rparr>]\<rparr>"
    by (rule transfer_owner_result)
  show ?thesis
  proof (rule that [of j ?ps1])
    show "j < MAX_PARTICIPANTS" by (rule j)
    show "?ps1 = ?ps[i := ?cl]" by simp
    show "\<forall>k<j. p_client (?ps1 ! k) = None" using before by simp
    show "p_client (?ps1 ! j) \<noteq> None" using here by simp
    show "r_participants (remove_at rm c i now) = ?ps1[j := (?ps1 ! j)\<lparr>p_is_owner := True\<rparr>]"
      using eq tr by simp
    show "r_owner (remove_at rm c i now) = p_client (?ps1 ! j)"
      using eq tr by simp
  qed
qed

lemma remove_at_owner_leaves:
  assumes len: "length (r_participants rm) = MAX_PARTICIPANTS"
      and i: "i < MAX_PARTICIPANTS"
      and at: "p_client (r_participants rm ! i) = Some c"
      and once: "length (filter (\<lambda>p. p_client p = Some c) (r_participants rm)) = 1"
      and flags: "\<forall>p\<in>set (r_participants rm). p_is_owner p \<longrightarrow> p_client p = r_owner rm"
      and cnt: "unat (r_participant_count rm) =
                  length (filter (\<lambda>p. p_client p \<noteq> None) (r_participants rm))"
      and own: "r_owner rm = Some c"
      and pos: "0 < r_participant_count rm - 1"
  shows "\<exists>j<MAX_PARTICIPANTS.
           (\<forall>k<j. p_client (r_participants (remove_at rm c i now) ! k) = None)
         \<and> p_client (r_participants (remove_at rm c i now) ! j) \<noteq> None
         \<and> r_owner (remove_at rm c i now) = p_client (r_participants (remove_at rm c i now) ! j)
         \<and> p_is_owner (r_participants (remove_at rm c i now) ! j)
         \<and> length (filter p_is_owner (r_participants (remove_at rm c i now))) = 1"
proof -
  let ?ps = "r_participants rm"
  let ?cl = "(?ps ! i)\<lparr>p_client := None, p_is_owner := False\<rparr>"
  from remove_at_transfer [OF len i at cnt own pos, of now]
  obtain j ps1 where j: "j < MAX_PARTICIPANTS"
      and ps1: "ps1 = ?ps[i := ?cl]"
      and before: "\<forall>k<j. p_client (ps1 ! k) = None"
      and here: "p_client (ps1 ! j) \<noteq> None"
      and ps2: "r_participants (remove_at rm c i now) = ps1[j := (ps1 ! j)\<lparr>p_is_owner := True\<rparr>]"
      and ow2: "r_owner (remove_at rm c i now) = p_client (ps1 ! j)"
    by blast
  let ?ps2 = "ps1[j := (ps1 ! j)\<lparr>p_is_owner := True\<rparr>]"
  have il: "i < length ?ps" using i len by simp
  have "length (filter (\<lambda>p. p_client p = Some c) (?ps[i := ?cl]))
          + (if p_client (?ps ! i) = Some c then 1 else 0)
        = length (filter (\<lambda>p. p_client p = Some c) ?ps)
          + (if p_client ?cl = Some c then 1 else 0)"
    using il by (rule length_filter_update)
  with at once have "length (filter (\<lambda>p. p_client p = Some c) ps1) = 0"
    unfolding ps1 by simp
  then have absent: "\<forall>p\<in>set ps1. p_client p \<noteq> Some c"
    by (simp add: filter_empty_conv)
  have unflagged: "\<not> p_is_owner p" if p: "p \<in> set ps1" for p
  proof
    assume fl: "p_is_owner p"
    from p have "p = ?cl \<or> p \<in> set ?ps"
      unfolding ps1 using set_update_subset_insert [of ?ps i ?cl] by auto
    with fl have "p \<in> set ?ps" by auto
    with fl flags own have "p_client p = Some c" by auto
    with absent p show False by blast
  qed
  have jl: "j < length ps1" using j len ps1 by simp
  have c2: "p_client (?ps2 ! k) = p_client (ps1 ! k)" for k
    using jl by (cases "k = j") simp_all
  have "length (filter p_is_owner ?ps2) + (if p_is_owner (ps1 ! j) then 1 else 0)
          = length (filter p_is_owner ps1)
            + (if p_is_owner ((ps1 ! j)\<lparr>p_is_owner := True\<rparr>) then 1 else 0)"
    using jl by (rule length_filter_update)
  moreover have "filter p_is_owner ps1 = []"
    using unflagged by (simp add: filter_empty_conv)
  moreover have "\<not> p_is_owner (ps1 ! j)"
    using unflagged jl nth_mem by blast
  ultimately have one: "length (filter p_is_owner ?ps2) = 1" by simp
  have fj: "p_is_owner (?ps2 ! j)" using jl by simp
  show ?thesis
    unfolding ps2 ow2 using j before here one fj c2 by auto
qed

lemma transfer_owner_slot:
  assumes "p_client (r_participants rm ! i) = None"
  shows "r_participants (transfer_owner rm) ! i = r_participants rm ! i"
proof (cases "first_index (\<lambda>p. p_client p \<noteq> None) (take MAX_PARTICIPANTS (r_participants rm))")
  case None
  then show ?thesis by (simp add: transfer_owner_def)
next
  case (Some j)
  then have "p_client (r_participants rm ! j) \<noteq> None"
    by (auto simp: first_index_Some_iff)
  with assms have "j \<noteq> i" by auto
  with Some show ?thesis by (simp add: transfer_owner_def)
qed

lemma remove_at_slot_flag:
  assumes i: "i < length (r_participants rm)"
  shows "\<not> p_is_owner (r_participants (remove_at rm c i now) ! i)"
proof -
  let ?rm1 = "rm\<lparr>r_participants := (r_participants rm)
                     [i := (r_participants rm ! i)\<lparr>p_client := None, p_is_owner := False\<rparr>],
                   r_participant_count := r_participant_count rm - 1,
                   r_last_activity := now\<rparr>"
  have e: "p_client (r_participants ?rm1 ! i) = None" using i by simp
  have "\<not> p_is_owner (r_participants ?rm1 ! i)" using i by simp
  then have "\<not> p_is_owner (r_participants (transfer_owner ?rm1) ! i)"
    using transfer_owner_slot [OF e] by simp
  then show ?thesis
    using i by (simp add: remove_at_def Let_def)
qed

lemma room_remove_participant_found:
  assumes "first_index (\<lambda>p. p_client p = Some c)
             (take MAX_PARTICIPANTS (r_participants (rooms ctx ! r))) = Some i"
  shows "room_remove_participant ctx (Some r) (Some c) now =
           (ctx\<lparr>rooms := (rooms ctx)[r := remove_at (rooms ctx ! r) c i now],
                clients := (clients ctx)
                  [c := (clients ctx ! c)\<lparr>c_room := None, c_state := CLIENT_STATE_CONNECTED\<rparr>]\<rparr>,
            0)"
  using assms by (simp add: room_remove_participant_def)

subsection \<open>The owner stays in the array\<close>

text \<open>A slot other than the one written keeps its place in the array.\<close>

lemma still_in_update:
  assumes p: "p \<in> set xs" and differ: "Q p" "\<not> Q (xs ! i)"
  shows "p \<in> set (xs[i := y])"
proof -
  from p obtain k where k: "k < length xs" "xs ! k = p"
    by (auto simp: in_set_conv_nth)
  with differ have "k \<noteq> i" by auto
  with k have "xs[i := y] ! k = p" "k < length (xs[i := y])" by simp_all
  then show ?thesis by (metis nth_mem)
qed

lemma owner_present_update:
  assumes own: "owner_present rm"
      and same: "r_owner rm' = r_owner rm"
      and parts: "r_participants rm' = (r_participants rm)[i := y]"
      and other: "r_owner rm = None \<or> p_client (r_participants rm ! i) \<noteq> r_owner rm"
  shows "owner_present rm'"
proof (cases "r_owner rm")
  case None
  with same show ?thesis by (simp add: owner_present_def)
next
  case (Some k)
  with own obtain p where p: "p \<in> set (r_participants rm)" "p_client p = Some k"
    by (auto simp: owner_present_def)
  from other Some have "p_client (r_participants rm ! i) \<noteq> Some k" by simp
  with p have "p \<in> set ((r_participants rm)[i := y])"
    by (intro still_in_update [where Q = "\<lambda>q. p_client q = Some k"]) simp_all
  with p Some same parts show ?thesis
    by (auto simp: owner_present_def)
qed

lemma rooms_update_all:
  assumes "\<forall>rm\<in>set rs. P rm" and "P y"
  shows "\<forall>rm\<in>set (rs[r := y]). P rm"
  using assms set_update_subset_insert [of rs r y] by auto

text \<open>\<open>room_add_participant\<close> either changes nothing or fills the first empty slot.\<close>

lemma room_add_participant_cases:
  obtains (refused) "fst (room_add_participant ctx (Some r) cp now) = ctx"
      and "snd (room_add_participant ctx (Some r) cp now) \<noteq> 0"
    | (added) c i where "cp = Some c"
      and "first_index (\<lambda>p. p_client p = None)
             (take MAX_PARTICIPANTS (r_participants (rooms ctx ! r))) = Some i"
      and "room_add_participant ctx (Some r) cp now =
             (ctx\<lparr>rooms := (rooms ctx)
                     [r := (rooms ctx ! r)
                        \<lparr>r_participants := (r_participants (rooms ctx ! r))
                            [i := \<lparr>p_client = Some c, p_join_time = now,
                                   p_is_owner = (r_owner (rooms ctx ! r) = Some c)\<rparr>],
                         r_participant_count := r_participant_count (rooms ctx ! r) + 1,
                         r_last_activity := now\<rparr>],
                  clients := (clients ctx)
                     [c := (clients ctx ! c)
                        \<lparr>c_room := Some r, c_state := CLIENT_STATE_IN_ROOM\<rparr>]\<rparr>, 0)"
proof (cases cp)
  case None
  then have "fst (room_add_participant ctx (Some r) cp now) = ctx"
    "snd (room_add_participant ctx (Some r) cp now) \<noteq> 0"
    by (simp_all add: room_add_participant_def Let_def)
  then show ?thesis by (rule refused)
next
  case (Some c)
  show ?thesis
  proof (cases "room_is_full ctx (Some r)")
    case True
    with Some have "fst (room_add_participant ctx (Some r) cp now) = ctx"
      "snd (room_add_participant ctx (Some r) cp now) \<noteq> 0"
      by (simp_all add: room_add_participant_def Let_def)
    then show ?thesis by (rule refused)
  next
    case nf: False
    show ?thesis
    proof (cases "room_find_participant ctx (Some r) (Some (c_id (clients ctx ! c))) = None")
      case False
      with Some nf have "fst (room_add_participant ctx (Some r) cp now) = ctx"
        "snd (room_add_participant ctx (Some r) cp now) \<noteq> 0"
        by (simp_all add: room_add_participant_def Let_def)
      then show ?thesis by (rule refused)
    next
      case nd: True
      show ?thesis
      proof (cases "c_room (clients ctx ! c) \<noteq> None \<and> c_room (clients ctx ! c) \<noteq> Some r")
        case True
        with Some nf nd have "fst (room_add_participant ctx (Some r) cp now) = ctx"
          "snd (room_add_participant ctx (Some r) cp now) \<noteq> 0"
          by (simp_all add: room_add_participant_def Let_def)
        then show ?thesis by (rule refused)
      next
        case no: False
        show ?thesis
        proof (cases "first_index (\<lambda>p. p_client p = None)
                        (take MAX_PARTICIPANTS (r_participants (rooms ctx ! r)))")
          case None
          with Some nf nd no have "fst (room_add_participant ctx (Some r) cp now) = ctx"
            "snd (room_add_participant ctx (Some r) cp now) \<noteq> 0"
            by (simp_all add: room_add_participant_def Let_def)
          then show ?thesis by (rule refused)
        next
          case (Some i)
          with \<open>cp = Some c\<close> nf nd no show ?thesis
            by (intro added [of c i]) (simp_all add: room_add_participant_def Let_def)
        qed
      qed
    qed
  qed
qed

lemma room_add_participant_owner:
  assumes r: "r < length (rooms ctx)"
      and inv: "\<forall>rm\<in>set (rooms ctx). owner_present rm"
  shows "\<forall>rm\<in>set (rooms (fst (room_add_participant ctx (Some r) cp now))). owner_present rm"
proof (cases rule: room_add_participant_cases [of ctx r cp now])
  case refused
  with inv show ?thesis by simp
next
  case (added c i)
  let ?rm = "rooms ctx ! r"
  let ?rm' = "?rm\<lparr>r_participants := (r_participants ?rm)
                        [i := \<lparr>p_client = Some c, p_join_time = now,
                               p_is_owner = (r_owner ?rm = Some c)\<rparr>],
                     r_participant_count := r_participant_count ?rm + 1,
                     r_last_activity := now\<rparr>"
  from added(3) have rs: "rooms (fst (room_add_participant ctx (Some r) cp now))
                         = (rooms ctx)[r := ?rm']"
    by simp
  from added(2) have "p_client (r_participants ?rm ! i) = None"
    by (auto simp: first_index_Some_iff)
  then have oth: "r_owner ?rm = None \<or> p_client (r_participants ?rm ! i) \<noteq> r_owner ?rm"
    by (cases "r_owner ?rm") simp_all
  have op: "owner_present ?rm" using inv r by simp
  have "owner_present ?rm'"
    by (rule owner_present_update [OF op _ _ oth]) simp_all
  with inv show ?thesis
    unfolding rs by (rule rooms_update_all)
qed

lemma room_cleanup_owner:
  assumes inv: "\<forall>rm\<in>set (rooms ctx). owner_present rm"
  shows "\<forall>rm\<in>set (rooms (room_cleanup ctx rp)). owner_present rm"
proof (cases rp)
  case None
  with inv show ?thesis by (simp add: room_cleanup_def)
next
  case (Some r)
  have "owner_present ((rooms ctx ! r)\<lparr>r_participant_count := 0, r_state := ROOM_STATE_CLOSING,
                           r_owner := None\<rparr>)"
    by (simp add: owner_present_def)
  with inv have "\<forall>rm\<in>set ((rooms ctx)
                  [r := (rooms ctx ! r)\<lparr>r_participant_count := 0, r_state := ROOM_STATE_CLOSING,
                           r_owner := None\<rparr>]). owner_present rm"
    by (rule rooms_update_all)
  with Some show ?thesis by (simp add: room_cleanup_def Let_def)
qed

lemma room_remove_participant_cases:
  obtains (absent) "room_remove_participant ctx (Some r) cp now = (ctx, -1)"
    | (found) c i where "cp = Some c"
      and "first_index (\<lambda>p. p_client p = Some c)
             (take MAX_PARTICIPANTS (r_participants (rooms ctx ! r))) = Some i"
proof (cases cp)
  case None
  then have "room_remove_participant ctx (Some r) cp now = (ctx, -1)"
    by (simp add: room_remove_participant_def)
  then show ?thesis by (rule absent)
next
  case (Some c)
  show ?thesis
  proof (cases "first_index (\<lambda>p. p_client p = Some c)
                  (take MAX_PARTICIPANTS (r_participants (rooms ctx ! r)))")
    case None
    with Some have "room_remove_participant ctx (Some r) cp now = (ctx, -1)"
      by (simp add: room_remove_participant_def)
    then show ?thesis by (rule absent)
  next
    case (Some i)
    with \<open>cp = Some c\<close> show ?thesis by (rule found)
  qed
qed

lemma owner_is_found:
  assumes len: "length (r_participants rm) = MAX_PARTICIPANTS"
      and inv: "owner_present rm" and own: "r_owner rm = Some c"
  obtains i where "first_index (\<lambda>p. p_client p = Some c)
                     (take MAX_PARTICIPANTS (r_participants rm)) = Some i"
proof -
  from inv own obtain p where "p \<in> set (take MAX_PARTICIPANTS (r_participants rm))"
    "p_client p = Some c"
    using len by (auto simp: owner_present_def)
  then show ?thesis
    by (rule first_index_exists [where P = "\<lambda>p. p_client p = Some c"]) (rule that)
qed

lemma room_remove_participant_owner:
  assumes r: "r < length (rooms ctx)"
      and len: "length (r_participants (rooms ctx ! r)) = MAX_PARTICIPANTS"
      and cnt: "unat (r_participant_count (rooms ctx ! r)) =
                  length (filter (\<lambda>p. p_client p \<noteq> None) (r_participants (rooms ctx ! r)))"
      and inv: "\<forall>rm\<in>set (rooms ctx). owner_present rm"
      and guard: "cp = None \<or> r_owner (rooms ctx ! r) \<noteq> cp
                  \<or> 0 < r_participant_count (rooms ctx ! r) - 1"
  shows "\<forall>rm\<in>set (rooms (fst (room_remove_participant ctx (Some r) cp now))). owner_present rm"
proof (cases rule: room_remove_participant_cases [of ctx r cp now])
  case absent
  with inv show ?thesis by simp
next
  case (found c i)
  let ?rm = "rooms ctx ! r"
  let ?ps = "r_participants ?rm"
  let ?cl = "(?ps ! i)\<lparr>p_client := None, p_is_owner := False\<rparr>"
  from found(2) have i: "i < MAX_PARTICIPANTS" and at: "p_client (?ps ! i) = Some c"
    using len by (simp_all add: first_index_Some_iff)
  have rs: "rooms (fst (room_remove_participant ctx (Some r) cp now))
              = (rooms ctx)[r := remove_at ?rm c i now]"
    unfolding found(1) room_remove_participant_found [OF found(2)] by simp
  have op: "owner_present ?rm" using inv r by simp
  have "owner_present (remove_at ?rm c i now)"
  proof (cases "r_owner ?rm = Some c")
    case False
    then have eq: "remove_at ?rm c i now =
                 ?rm\<lparr>r_participants := ?ps[i := ?cl],
                     r_participant_count := r_participant_count ?rm - 1,
                     r_last_activity := now\<rparr>"
      by (simp add: remove_at_def)
    from False at have oth: "r_owner ?rm = None \<or> p_client (?ps ! i) \<noteq> r_owner ?rm"
      by auto
    show ?thesis
      unfolding eq by (rule owner_present_update [OF op _ _ oth]) simp_all
  next
    case True
    with guard found(1) have pos: "0 < r_participant_count ?rm - 1" by simp
    from remove_at_transfer [OF len i at cnt True pos, of now]
    obtain j ps1 where j: "j < MAX_PARTICIPANTS"
      and ps1: "ps1 = ?ps[i := ?cl]"
      and before: "\<forall>k<j. p_client (ps1 ! k) = None"
      and here: "p_client (ps1 ! j) \<noteq> None"
      and ps2: "r_participants (remove_at ?rm c i now) = ps1[j := (ps1 ! j)\<lparr>p_is_owner := True\<rparr>]"
      and ow2: "r_owner (remove_at ?rm c i now) = p_client (ps1 ! j)"
      by blast
    have jl: "j < length ps1" using j len ps1 by simp
    from here obtain k where k: "p_client (ps1 ! j) = Some k" by auto
    let ?q = "(ps1 ! j)\<lparr>p_is_owner := True\<rparr>"
    have "?q \<in> set (r_participants (remove_at ?rm c i now))"
      unfolding ps2 using jl by (rule set_update_memI)
    moreover have "p_client ?q = Some k" using k by simp
    ultimately have "\<exists>p\<in>set (r_participants (remove_at ?rm c i now)). p_client p = Some k"
      by (rule bexI [rotated])
    moreover have "r_owner (remove_at ?rm c i now) = Some k"
      using ow2 k by simp
    ultimately show ?thesis
      by (simp add: owner_present_def)
  qed
  with inv show ?thesis
    unfolding rs by (rule rooms_update_all)
qed

lemma room_remove_participant_last_owner:
  assumes r: "r < length (rooms ctx)"
      and len: "length (r_participants (rooms ctx ! r)) = MAX_PARTICIPANTS"
      and cnt: "unat (r_participant_count (rooms ctx ! r)) =
                  length (filter (\<lambda>p. p_client p \<noteq> None) (r_participants (rooms ctx ! r)))"
      and inv: "owner_present (rooms ctx ! r)"
      and own: "r_owner (rooms ctx ! r) = Some c"
      and one: "r_participant_count (rooms ctx ! r) = 1"
  shows "r_owner (rooms (fst (room_remove_participant ctx (Some r) (Some c) now)) ! r) = Some c
       \<and> \<not> owner_present (rooms (fst (room_remove_participant ctx (Some r) (Some c) now)) ! r)"
proof -
  let ?rm = "rooms ctx ! r"
  let ?ps = "r_participants ?rm"
  from owner_is_found [OF len inv own] obtain i
    where fi: "first_index (\<lambda>p. p_client p = Some c) (take MAX_PARTICIPANTS ?ps) = Some i" .
  then have il: "i < length ?ps" and at: "p_client (?ps ! i) = Some c"
    using len by (simp_all add: first_index_Some_iff)
  let ?rm' = "remove_at ?rm c i now"
  have rm': "rooms (fst (room_remove_participant ctx (Some r) (Some c) now)) ! r = ?rm'"
    using r by (simp add: room_remove_participant_found [OF fi])
  have ow: "r_owner ?rm' = Some c"
    using own one by (simp add: remove_at_def)
  have ne: "p_client (?ps ! i) \<noteq> None" using at by simp
  have "length (filter (\<lambda>p. p_client p \<noteq> None) (r_participants ?rm')) + 1
          = length (filter (\<lambda>p. p_client p \<noteq> None) ?ps)"
    by (rule remove_at_occupied [OF il ne])
  with cnt one have "length (filter (\<lambda>p. p_client p \<noteq> None) (r_participants ?rm')) = 0"
    by simp
  then have "\<forall>p\<in>set (r_participants ?rm'). p_client p = None"
    by (simp add: filter_empty_conv)
  then have "\<not> owner_present ?rm'"
    using ow by (simp add: owner_present_def)
  with ow show ?thesis unfolding rm' by simp
qed

subsection \<open>Replies\<close>

lemma client_send_message_error:
  assumes "c_is_alive (clients ctx ! c)" and "c_wsi (clients ctx ! c) \<noteq> None"
  shows "replies_error_only ctx c reason
           (fst (client_send_message E ctx c EVENT_ERROR (Some reason)))"
  using assms
  by (auto simp: replies_error_only_def client_send_message_def EVENT_ERROR_def Let_def)

subsection \<open>What sending and leaving touch\<close>

lemma map_update_same:
  assumes "f y = f (xs ! i)"
  shows "map f (xs[i := y]) = map f xs"
proof (cases "i < length xs")
  case True
  with assms have "(map f xs)[i := f y] = map f xs"
    by (simp add: list_update_same_conv)
  then show ?thesis by (simp add: map_update)
next
  case False
  then have "xs[i := y] = xs" by (simp add: list_update_beyond)
  then show ?thesis by simp
qed

text \<open>What a send leaves alone, and what it adds to the trace.\<close>

lemma client_send_message_frame:
  "rooms (fst (client_send_message E ctx k ev dat)) = rooms ctx"
  "msg_queue (fst (client_send_message E ctx k ev dat)) = msg_queue ctx"
  "map c_is_alive (clients (fst (client_send_message E ctx k ev dat)))
     = map c_is_alive (clients ctx)"
  "map c_wsi (clients (fst (client_send_message E ctx k ev dat))) = map c_wsi (clients ctx)"
  by (simp_all add: client_send_message_def Let_def map_update_same split: option.split)

lemma client_send_message_sent:
  "\<exists>xs. sent (fst (client_send_message E ctx k ev dat)) = sent ctx @ xs
        \<and> (\<forall>km\<in>set xs. fst km = k)"
  by (simp add: client_send_message_def Let_def split: option.split)

lemma broadcast_loop_frame:
  "rooms (fst (broadcast_loop E ctx excl ev dat ps n)) = rooms ctx
   \<and> msg_queue (fst (broadcast_loop E ctx excl ev dat ps n)) = msg_queue ctx
   \<and> map c_is_alive (clients (fst (broadcast_loop E ctx excl ev dat ps n)))
       = map c_is_alive (clients ctx)
   \<and> map c_wsi (clients (fst (broadcast_loop E ctx excl ev dat ps n))) = map c_wsi (clients ctx)"
proof (induction ps arbitrary: ctx n)
  case Nil
  then show ?case by simp
next
  case (Cons p ps)
  show ?case
  proof (cases "p_client p")
    case None
    then show ?thesis using Cons.IH [of ctx n] by simp
  next
    case (Some k)
    show ?thesis
    proof (cases "Some k = excl \<or> \<not> c_is_alive (clients ctx ! k)")
      case True
      with Some show ?thesis using Cons.IH [of ctx n] by simp
    next
      case False
      obtain ctx1 ret where s: "client_send_message E ctx k ev dat = (ctx1, ret)"
        by (cases "client_send_message E ctx k ev dat")
      then have ctx1: "ctx1 = fst (client_send_message E ctx k ev dat)" by simp
      have "broadcast_loop E ctx excl ev dat (p # ps) n
              = broadcast_loop E ctx1 excl ev dat ps (if ret > 0 then n + 1 else n)"
        using Some False s by simp
      then show ?thesis
        using Cons.IH [of ctx1 "if ret > 0 then n + 1 else n"]
        by (simp add: ctx1 client_send_message_frame)
    qed
  qed
qed

lemma broadcast_loop_sent:
  "\<exists>xs. sent (fst (broadcast_loop E ctx excl ev dat ps n)) = sent ctx @ xs
        \<and> (\<forall>km\<in>set xs. Some (fst km) \<in> p_client ` set ps)"
proof (induction ps arbitrary: ctx n)
  case Nil
  then show ?case by simp
next
  case (Cons p ps)
  show ?case
  proof (cases "p_client p")
    case None
    then show ?thesis using Cons.IH [of ctx n] by auto
  next
    case (Some k)
    show ?thesis
    proof (cases "Some k = excl \<or> \<not> c_is_alive (clients ctx ! k)")
      case True
      with Some show ?thesis using Cons.IH [of ctx n] by auto
    next
      case False
      obtain ctx1 ret where s: "client_send_message E ctx k ev dat = (ctx1, ret)"
        by (cases "client_send_message E ctx k ev dat")
      then have ctx1: "ctx1 = fst (client_send_message E ctx k ev dat)" by simp
      have step: "broadcast_loop E ctx excl ev dat (p # ps) n
              = broadcast_loop E ctx1 excl ev dat ps (if ret > 0 then n + 1 else n)"
        using Some False s by simp
      from client_send_message_sent [of E ctx k ev dat] obtain xs
        where xs: "sent ctx1 = sent ctx @ xs" "\<forall>km\<in>set xs. fst km = k"
        unfolding ctx1 by blast
      from Cons.IH [of ctx1 "if ret > 0 then n + 1 else n"] obtain ys
        where ys: "sent (fst (broadcast_loop E ctx1 excl ev dat ps (if ret > 0 then n + 1 else n)))
                     = sent ctx1 @ ys"
          "\<forall>km\<in>set ys. Some (fst km) \<in> p_client ` set ps"
        by blast
      have "sent (fst (broadcast_loop E ctx excl ev dat (p # ps) n)) = sent ctx @ (xs @ ys)"
        unfolding step using xs ys by simp
      moreover have "\<forall>km\<in>set (xs @ ys). Some (fst km) \<in> p_client ` set (p # ps)"
        using xs(2) ys(2) Some by (auto simp: image_iff)
      ultimately show ?thesis by blast
    qed
  qed
qed


lemma first_index_map: "first_index P (map f xs) = first_index (\<lambda>x. P (f x)) xs"
  by (induction xs) simp_all

lemma find_by_id_cong:
  assumes "map r_state (rooms ctx') = map r_state (rooms ctx)"
      and "map r_id (rooms ctx') = map r_id (rooms ctx)"
  shows "room_registry_find_by_id ctx' rid = room_registry_find_by_id ctx rid"
proof -
  let ?f = "\<lambda>rm. (r_state rm, r_id rm)"
  have z: "map ?f xs = zip (map r_state xs) (map r_id xs)" for xs :: "room_t list"
    by (induction xs) simp_all
  have "map ?f (rooms ctx') = map ?f (rooms ctx)"
    unfolding z using assms by simp
  then have "first_index (\<lambda>q. fst q = ROOM_STATE_ACTIVE \<and> snd q = x) (map ?f (rooms ctx'))
           = first_index (\<lambda>q. fst q = ROOM_STATE_ACTIVE \<and> snd q = x) (map ?f (rooms ctx))" for x
    by simp
  then show ?thesis
    by (cases rid) (simp_all add: room_registry_find_by_id_def first_index_map)
qed

lemma remove_at_ids:
  "r_state (remove_at rm c i now) = r_state rm" "r_id (remove_at rm c i now) = r_id rm"
  by (simp_all add: remove_at_def Let_def transfer_owner_def split: option.split)

lemma remove_at_members:
  assumes "i < length (r_participants rm)"
  shows "p_client ` set (r_participants (remove_at rm c i now))
           \<subseteq> insert None (p_client ` set (r_participants rm))"
proof -
  have "set (map p_client (r_participants (remove_at rm c i now)))
          \<subseteq> insert None (set (map p_client (r_participants rm)))"
    unfolding remove_at_clients [OF assms] by (rule set_update_subset_insert)
  then show ?thesis by simp
qed

text \<open>\<open>room_broadcast_message\<close> on a room and an event that are not \<open>NULL\<close>.\<close>

lemma room_broadcast_message_frame:
  "rooms (fst (room_broadcast_message E ctx (Some r2) excl (Some e) dat now))
     = (rooms ctx)[r2 := (rooms ctx ! r2)\<lparr>r_last_activity := now\<rparr>]"
  "msg_queue (fst (room_broadcast_message E ctx (Some r2) excl (Some e) dat now)) = msg_queue ctx"
  "map c_is_alive (clients (fst (room_broadcast_message E ctx (Some r2) excl (Some e) dat now)))
     = map c_is_alive (clients ctx)"
  "map c_wsi (clients (fst (room_broadcast_message E ctx (Some r2) excl (Some e) dat now)))
     = map c_wsi (clients ctx)"
  by (simp_all add: room_broadcast_message_def case_prod_unfold Let_def broadcast_loop_frame)

lemma room_broadcast_message_sent:
  "\<exists>xs. sent (fst (room_broadcast_message E ctx (Some r2) excl (Some e) dat now)) = sent ctx @ xs
        \<and> (\<forall>km\<in>set xs. Some (fst km) \<in> p_client ` set (r_participants (rooms ctx ! r2)))"
proof -
  let ?ps = "take MAX_PARTICIPANTS (r_participants (rooms ctx ! r2))"
  from broadcast_loop_sent [of E ctx excl e dat ?ps 0] obtain xs
    where xs: "sent (fst (broadcast_loop E ctx excl e dat ?ps 0)) = sent ctx @ xs"
      "\<forall>km\<in>set xs. Some (fst km) \<in> p_client ` set ?ps"
    by blast
  have "set ?ps \<subseteq> set (r_participants (rooms ctx ! r2))" by (rule set_take_subset)
  with xs(2) have "\<forall>km\<in>set xs. Some (fst km) \<in> p_client ` set (r_participants (rooms ctx ! r2))"
    by blast
  moreover have "sent (fst (room_broadcast_message E ctx (Some r2) excl (Some e) dat now))
                   = sent ctx @ xs"
    using xs(1) by (simp add: room_broadcast_message_def case_prod_unfold Let_def)
  ultimately show ?thesis by blast
qed

lemma room_remove_participant_frame:
  "sent (fst (room_remove_participant ctx (Some r2) cp now)) = sent ctx"
  "msg_queue (fst (room_remove_participant ctx (Some r2) cp now)) = msg_queue ctx"
  "map c_is_alive (clients (fst (room_remove_participant ctx (Some r2) cp now)))
     = map c_is_alive (clients ctx)"
  "map c_wsi (clients (fst (room_remove_participant ctx (Some r2) cp now)))
     = map c_wsi (clients ctx)"
proof -
  let ?ctxA = "fst (room_remove_participant ctx (Some r2) cp now)"
  have "sent ?ctxA = sent ctx \<and> msg_queue ?ctxA = msg_queue ctx
      \<and> map c_is_alive (clients ?ctxA) = map c_is_alive (clients ctx)
      \<and> map c_wsi (clients ?ctxA) = map c_wsi (clients ctx)"
  proof (cases rule: room_remove_participant_cases [of ctx r2 cp now])
    case absent
    then show ?thesis by simp
  next
    case (found c i)
    show ?thesis
      unfolding found(1) room_remove_participant_found [OF found(2)]
      by (simp add: map_update_same)
  qed
  then show "sent ?ctxA = sent ctx" "msg_queue ?ctxA = msg_queue ctx"
    "map c_is_alive (clients ?ctxA) = map c_is_alive (clients ctx)"
    "map c_wsi (clients ?ctxA) = map c_wsi (clients ctx)"
    by simp_all
qed

lemma room_remove_participant_rooms:
  obtains X where "rooms (fst (room_remove_participant ctx (Some r2) cp now)) = (rooms ctx)[r2 := X]"
    and "r_state X = r_state (rooms ctx ! r2)" and "r_id X = r_id (rooms ctx ! r2)"
    and "p_client ` set (r_participants X)
           \<subseteq> insert None (p_client ` set (r_participants (rooms ctx ! r2)))"
proof (cases rule: room_remove_participant_cases [of ctx r2 cp now])
  case absent
  show ?thesis
  proof (rule that [of "rooms ctx ! r2"])
    show "rooms (fst (room_remove_participant ctx (Some r2) cp now))
            = (rooms ctx)[r2 := rooms ctx ! r2]"
      using absent by simp
  qed auto
next
  case (found c i)
  from found(2) have il: "i < length (r_participants (rooms ctx ! r2))"
    by (simp add: first_index_Some_iff)
  show ?thesis
  proof (rule that [of "remove_at (rooms ctx ! r2) c i now"])
    show "rooms (fst (room_remove_participant ctx (Some r2) cp now))
            = (rooms ctx)[r2 := remove_at (rooms ctx ! r2) c i now]"
      unfolding found(1) room_remove_participant_found [OF found(2)] by simp
    show "p_client ` set (r_participants (remove_at (rooms ctx ! r2) c i now))
            \<subseteq> insert None (p_client ` set (r_participants (rooms ctx ! r2)))"
      using il by (rule remove_at_members)
  qed (simp_all add: remove_at_ids)
qed

text \<open>
  \<open>handle_leave_room\<close> for a client whose room, if it has one, is a slot of the registry
  other than \<open>r\<close>.
\<close>

lemma handle_leave_room_elsewhere:
  assumes other: "c_room (clients ctx ! c) \<noteq> Some r"
      and valid: "\<forall>r2. c_room (clients ctx ! c) = Some r2 \<longrightarrow> r2 < length (rooms ctx)"
  shows "rooms (handle_leave_room E ctx c now) ! r = rooms ctx ! r
       \<and> map r_state (rooms (handle_leave_room E ctx c now)) = map r_state (rooms ctx)
       \<and> map r_id (rooms (handle_leave_room E ctx c now)) = map r_id (rooms ctx)
       \<and> msg_queue (handle_leave_room E ctx c now) = msg_queue ctx
       \<and> map c_is_alive (clients (handle_leave_room E ctx c now)) = map c_is_alive (clients ctx)
       \<and> map c_wsi (clients (handle_leave_room E ctx c now)) = map c_wsi (clients ctx)
       \<and> (\<exists>xs. sent (handle_leave_room E ctx c now) = sent ctx @ xs
              \<and> (\<forall>km\<in>set xs. \<exists>r2. c_room (clients ctx ! c) = Some r2
                     \<and> Some (fst km) \<in> p_client ` set (r_participants (rooms ctx ! r2))))"
proof (cases "c_room (clients ctx ! c)")
  case None
  then have "handle_leave_room E ctx c now = ctx"
    by (simp add: handle_leave_room_def)
  then show ?thesis by simp
next
  case (Some r2)
  with other valid have ne: "r2 \<noteq> r" and r2: "r2 < length (rooms ctx)" by auto
  let ?ctxA = "fst (room_remove_participant ctx (Some r2) (Some c) now)"
  obtain X where X: "rooms ?ctxA = (rooms ctx)[r2 := X]"
    "r_state X = r_state (rooms ctx ! r2)" "r_id X = r_id (rooms ctx ! r2)"
    "p_client ` set (r_participants X)
           \<subseteq> insert None (p_client ` set (r_participants (rooms ctx ! r2)))"
    by (rule room_remove_participant_rooms)
  note fr = room_remove_participant_frame [of ctx r2 "Some c" now]
  have XA: "rooms ?ctxA ! r2 = X" using X(1) r2 by simp
  show ?thesis
  proof (cases "room_is_empty ?ctxA (Some r2)")
    case True
    then have eq: "handle_leave_room E ctx c now = ?ctxA"
      using Some by (simp add: handle_leave_room_def Let_def)
    show ?thesis
      unfolding eq using X ne fr by (simp add: map_update_same)
  next
    case False
    let ?d = "ext_json_dumps E (participants_data ?ctxA r2)"
    let ?ctxB = "fst (room_broadcast_message E ?ctxA (Some r2) None
                        (Some EVENT_PARTICIPANTS_LIST) ?d now)"
    from False have eq: "handle_leave_room E ctx c now = ?ctxB"
      using Some by (simp add: handle_leave_room_def Let_def)
    note bf = room_broadcast_message_frame [of E ?ctxA r2 None EVENT_PARTICIPANTS_LIST ?d now]
    have rB: "rooms ?ctxB = (rooms ctx)[r2 := X\<lparr>r_last_activity := now\<rparr>]"
      unfolding bf(1) XA unfolding X(1) by simp
    from room_broadcast_message_sent [of E ?ctxA r2 None EVENT_PARTICIPANTS_LIST ?d now]
    obtain xs where xs: "sent ?ctxB = sent ?ctxA @ xs"
      "\<forall>km\<in>set xs. Some (fst km) \<in> p_client ` set (r_participants (rooms ?ctxA ! r2))"
      by blast
    have "\<forall>km\<in>set xs. Some (fst km) \<in> p_client ` set (r_participants (rooms ctx ! r2))"
      using xs(2) X(4) unfolding XA by blast
    then have s: "\<exists>xs. sent ?ctxB = sent ctx @ xs
              \<and> (\<forall>km\<in>set xs. \<exists>r2. c_room (clients ctx ! c) = Some r2
                     \<and> Some (fst km) \<in> p_client ` set (r_participants (rooms ctx ! r2)))"
      using xs(1) fr(1) Some by auto
    have "rooms ?ctxB ! r = rooms ctx ! r"
      unfolding rB using ne by simp
    moreover have "map r_state (rooms ?ctxB) = map r_state (rooms ctx)"
      "map r_id (rooms ?ctxB) = map r_id (rooms ctx)"
      unfolding rB using X(2,3) by (simp_all add: map_update_same)
    moreover have "msg_queue ?ctxB = msg_queue ctx"
      "map c_is_alive (clients ?ctxB) = map c_is_alive (clients ctx)"
      "map c_wsi (clients ?ctxB) = map c_wsi (clients ctx)"
      using bf fr by simp_all
    ultimately show ?thesis
      unfolding eq using s by (intro conjI)
  qed
qed

subsection \<open>Accepting a connection\<close>

lemma to_hex_length: "0 < w \<Longrightarrow> n < 16 ^ w \<Longrightarrow> length (to_hex n) \<le> w"
proof (induction w arbitrary: n)
  case 0
  then show ?case by simp
next
  case (Suc w)
  show ?case
  proof (cases "n < 16")
    case True
    then show ?thesis by (simp add: to_hex.simps [of n])
  next
    case False
    with Suc.prems have w: "0 < w" by (cases w) auto
    from Suc.prems have "n div 16 < 16 ^ w"
      by (simp add: less_mult_imp_div_less mult.commute)
    with w have "length (to_hex (n div 16)) \<le> w" by (rule Suc.IH)
    with False show ?thesis by (simp add: to_hex.simps [of n])
  qed
qed

lemma printf_0x_length: "0 < w \<Longrightarrow> n < 16 ^ w \<Longrightarrow> length (printf_0x w n) = w"
  using to_hex_length [of w n] by (simp add: printf_0x_def)

lemma unat_and_bound:
  fixes x :: "32 word"
  shows "unat (x AND m) \<le> unat m"
  by (rule word_and_le1 [THEN word_le_nat_alt [THEN iffD1]])

lemma variant_bound:
  fixes x :: "32 word"
  shows "unat ((x AND 0x3fff) OR 0x8000) < 16 ^ 4"
proof -
  have "0 \<le> uint x AND 0x3fff" by simp
  moreover have "uint x AND 0x3fff < 2 ^ 16"
    by (rule AND_upper2'') simp_all
  moreover have "(0x8000 :: int) < 2 ^ 16" by simp
  ultimately have "(uint x AND 0x3fff) OR (0x8000 :: int) < 2 ^ 16"
    by (rule OR_upper)
  moreover have "uint ((x AND 0x3fff) OR 0x8000) = (uint x AND 0x3fff) OR 0x8000"
    by (simp add: uint_or uint_and)
  ultimately have "uint ((x AND 0x3fff) OR 0x8000) < 65536"
    by simp
  then have "int (unat ((x AND 0x3fff) OR 0x8000)) < 65536"
    by simp
  then have "unat ((x AND 0x3fff) OR 0x8000) < 65536"
    by linarith
  then show ?thesis by simp
qed

lemma generate_uuid_length: "length (generate_uuid rs 37) = 36"
proof -
  have a: "unat (rs 0 AND 0xffffffff) < 16 ^ 8" "unat (rs 4 AND 0xffffffff) < 16 ^ 8"
    using unat_and_bound [of "rs 0" "0xffffffff"] unat_and_bound [of "rs 4" "0xffffffff"]
    by simp_all
  have b: "unat (rs 1 AND 0xffff) < 16 ^ 4" "unat (rs 5 AND 0xffff) < 16 ^ 4"
    using unat_and_bound [of "rs 1" "0xffff"] unat_and_bound [of "rs 5" "0xffff"]
    by simp_all
  have c: "unat (rs 2 AND 0x0fff) < 16 ^ 3"
    using unat_and_bound [of "rs 2" "0x0fff"] by simp
  note d = variant_bound [of "rs 3"]
  show ?thesis
    unfolding generate_uuid_def
    using printf_0x_length [OF _ a(1)] printf_0x_length [OF _ a(2)] printf_0x_length [OF _ b(1)]
      printf_0x_length [OF _ b(2)] printf_0x_length [OF _ c] printf_0x_length [OF _ d]
    by simp
qed

lemma accept_refused_when_full:
  assumes "first_index (\<lambda>cl. \<not> c_is_alive cl) (clients ctx) = None"
  shows "webrtc_protocol_callback E ctx wsi LWS_CALLBACK_ESTABLISHED inp rs now now_ms = ctx"
  using assms by (simp add: webrtc_protocol_callback_def client_registry_add_def)

lemma accept_sends_client_id:
  assumes free: "first_index (\<lambda>cl. \<not> c_is_alive cl) (clients ctx) = Some i"
  shows "sent (webrtc_protocol_callback E ctx wsi LWS_CALLBACK_ESTABLISHED inp rs now now_ms)
           = sent ctx
               @ [(i, \<lparr>m_event = ''client-id'',
                        m_data = map_option JString
                          (ext_json_dumps E
                             (JObject [(''clientId'', JString (generate_uuid rs 37))]))\<rparr>)]"
proof -
  from free have i: "i < length (clients ctx)"
    by (simp add: first_index_Some_iff)
  then show ?thesis
    using free
    by (simp add: webrtc_protocol_callback_def client_registry_add_def client_init_def
        client_send_message_def EVENT_CLIENT_ID_def Let_def)
qed

subsection \<open>Handlers in any state\<close>

lemma client_send_message_live:
  assumes "c_is_alive (clients ctx ! c)" and "c_wsi (clients ctx ! c) \<noteq> None"
  shows "sent (fst (client_send_message E ctx c ev dat))
           = sent ctx @ [(c, \<lparr>m_event = ev, m_data = map_option JString dat\<rparr>)]"
  using assms by (auto simp: client_send_message_def Let_def)

lemma client_send_message_ids:
  "map c_id (clients (fst (client_send_message E ctx k ev dat))) = map c_id (clients ctx)"
  "length (clients (fst (client_send_message E ctx k ev dat))) = length (clients ctx)"
  by (simp_all add: client_send_message_def Let_def map_update_same split: option.split)

text \<open>
  Every \<open>join-room\<close> that creates a room: the sender is live and in no room, no active
  room has the identifier asked for (or none is asked for), the name is usable and a
  room slot is free.
\<close>

lemma join_creating_room_reports_full:
  assumes c: "c < length (clients ctx)"
      and alive: "c_is_alive (clients ctx ! c)" and wsi: "c_wsi (clients ctx ! c) \<noteq> None"
      and noroom: "c_room (clients ctx ! c) = None"
      and unknown: "room_registry_find_by_id ctx
                      (json_string_value (json_object_get dat ''roomId'')) = None"
      and name: "(if json_object_get dat ''roomName'' \<noteq> None
                  then json_string_value (json_object_get dat ''roomName'')
                  else Some ''Unnamed Room'') = Some n"
      and slot: "first_index (\<lambda>rm. r_state rm \<noteq> ROOM_STATE_ACTIVE) (rooms ctx) = Some i"
  shows "sent (handle_join_room E ctx c dat rs now)
           = sent ctx
               @ [(c, \<lparr>m_event = ''room-created'',
                        m_data = map_option JString
                          (ext_json_dumps E
                             (JObject [(''roomId'', JString (generate_uuid rs 37)),
                                       (''roomName'', JString (safe_strncpy n 64))]))\<rparr>),
                  (c, \<lparr>m_event = ''error'',
                        m_data = Some (JString ''Room is full (max 6 participants)'')\<rparr>)]"
proof -
  let ?cl = "clients ctx ! c"
  let ?R = "\<lparr>r_id = generate_uuid rs 37, r_name = safe_strncpy n 64,
             r_participants = [\<lparr>p_client = Some c, p_join_time = now, p_is_owner = True\<rparr>,
                               zero_participant, zero_participant, zero_participant,
                               zero_participant, zero_participant],
             r_participant_count = 1, r_state = ROOM_STATE_ACTIVE, r_created_at = now,
             r_last_activity = now, r_owner = Some c\<rparr>"
  let ?ctx2 = "ctx\<lparr>rooms := (rooms ctx)[i := ?R],
                    clients := (clients ctx)
                      [c := ?cl\<lparr>c_room := Some i, c_state := CLIENT_STATE_IN_ROOM\<rparr>],
                    active_rooms := active_rooms ctx + 1,
                    total_rooms_created := total_rooms_created ctx + 1\<rparr>"
  from slot have i: "i < length (rooms ctx)"
    by (simp add: first_index_Some_iff)
  have leave: "handle_leave_room E ctx c now = ctx"
    using noroom by (simp add: handle_leave_room_def)
  have rid: "(if dat \<noteq> None
              then (let room_id_json = json_object_get dat ''roomId''
                    in if room_id_json \<noteq> None then json_string_value room_id_json else None)
              else None) = json_string_value (json_object_get dat ''roomId'')"
    by (cases dat) (auto simp: json_object_get_def json_string_value_def Let_def
        split: json.splits option.splits)
  have nm: "(if dat \<noteq> None
             then (let room_name_json = json_object_get dat ''roomName''
                   in if room_name_json \<noteq> None then json_string_value room_name_json
                      else Some ''Unnamed Room'')
             else Some ''Unnamed Room'') = Some n"
  proof (cases dat)
    case None
    then show ?thesis using name by (simp add: json_object_get_def)
  next
    case (Some a)
    then show ?thesis using name by (auto simp: Let_def split: if_splits)
  qed
  have nofind: "(if json_string_value (json_object_get dat ''roomId'') \<noteq> None
                 then room_registry_find_by_id ctx
                        (json_string_value (json_object_get dat ''roomId''))
                 else None) = None"
    using unknown by simp
  have init: "room_init ctx (Some i) (Some n) (Some c) rs now
                = ctx\<lparr>rooms := (rooms ctx)[i := ?R],
                      clients := (clients ctx)
                        [c := ?cl\<lparr>c_room := Some i, c_state := CLIENT_STATE_IN_ROOM\<rparr>]\<rparr>"
    using i noroom
    by (simp add: room_init_def zero_room_def room_add_participant_def room_is_full_def
        room_find_participant_def MAX_PARTICIPANTS_def replicate_6 zero_participant_def Let_def)
  have create: "room_registry_create ctx (Some n) (Some c) rs now = (?ctx2, Some i)"
    using slot by (simp add: room_registry_create_def init)
  let ?d = "ext_json_dumps E (JObject [(''roomId'', JString (generate_uuid rs 37)),
                                       (''roomName'', JString (safe_strncpy n 64))])"
  let ?ctx3 = "fst (client_send_message E ?ctx2 c EVENT_ROOM_CREATED ?d)"
  have cl2: "c_is_alive (clients ?ctx2 ! c)" "c_wsi (clients ?ctx2 ! c) \<noteq> None"
    using c alive wsi by simp_all
  have sent3: "sent ?ctx3 = sent ctx @ [(c, \<lparr>m_event = ''room-created'',
                                             m_data = map_option JString ?d\<rparr>)]"
    using client_send_message_live [OF cl2, of E EVENT_ROOM_CREATED ?d]
    by (simp add: EVENT_ROOM_CREATED_def)
  note fr = client_send_message_frame [of E ?ctx2 c EVENT_ROOM_CREATED ?d]
  have len3: "length (clients ?ctx3) = length (clients ctx)"
    using client_send_message_ids(2) [of E ?ctx2 c EVENT_ROOM_CREATED ?d] by simp
  have cl3: "c_is_alive (clients ?ctx3 ! c)" "c_wsi (clients ?ctx3 ! c) \<noteq> None"
  proof -
    have "map c_is_alive (clients ?ctx3) ! c = map c_is_alive (clients ?ctx2) ! c"
      "map c_wsi (clients ?ctx3) ! c = map c_wsi (clients ?ctx2) ! c"
      using fr by simp_all
    then show "c_is_alive (clients ?ctx3 ! c)" "c_wsi (clients ?ctx3 ! c) \<noteq> None"
      using c len3 cl2 by simp_all
  qed
  have room3: "rooms ?ctx3 ! i = ?R"
    using fr(1) i by simp
  have again: "room_add_participant ?ctx3 (Some i) (Some c) now = (?ctx3, -2)"
    by (simp add: room_add_participant_def room_is_full_def room_find_participant_def room3
        MAX_PARTICIPANTS_def Let_def)
  have tail: "join_room_tail E ?ctx3 i c now
                = fst (client_send_message E ?ctx3 c EVENT_ERROR
                         (Some ''Room is full (max 6 participants)''))"
    by (simp add: join_room_tail_def again)
  have whole: "handle_join_room E ctx c dat rs now
                 = fst (client_send_message E ?ctx3 c EVENT_ERROR
                          (Some ''Room is full (max 6 participants)''))"
    unfolding handle_join_room_def leave rid nm
    using nofind create tail i by (simp add: Let_def)
  show ?thesis
    unfolding whole
    using client_send_message_live [OF cl3, of E EVENT_ERROR
        "Some ''Room is full (max 6 participants)''"] sent3
    by (simp add: EVENT_ERROR_def)
qed

text \<open>
  The client pass of the reaper writes to the client array and to \<open>active_count\<close>
  only: whatever the clients and the timeout are, every room keeps its slots and its
  count, and nothing is sent.
\<close>

lemma client_registry_remove_rooms:
  "rooms (client_registry_remove ctx cp) = rooms ctx"
  "sent (client_registry_remove ctx cp) = sent ctx"
  by (simp_all add: client_registry_remove_def split: option.split)

lemma timeout_loop_rooms:
  "rooms (timeout_loop ctx now is) = rooms ctx \<and> sent (timeout_loop ctx now is) = sent ctx"
  by (induction "is" arbitrary: ctx) (simp_all add: client_registry_remove_rooms)

text \<open>
  A frame that parses and meets a full queue, in any state: the push answers -1, the
  queue and the error counter are what they were.
\<close>

lemma message_queue_push_full:
  "q_capacity queue \<le> q_count queue \<Longrightarrow> message_queue_push queue wsi msg t = (queue, -1)"
  by (simp add: message_queue_push_def)

lemma receive_on_full_queue:
  assumes "client_registry_find_by_wsi ctx (Some wsi) = Some c"
      and "message_deserialize (ext_json_loads E inp) = Some msg"
      and "q_capacity (msg_queue ctx) \<le> q_count (msg_queue ctx)"
  shows "msg_queue (webrtc_protocol_callback E ctx wsi LWS_CALLBACK_RECEIVE inp rs now t)
           = msg_queue ctx"
    and "total_errors (webrtc_protocol_callback E ctx wsi LWS_CALLBACK_RECEIVE inp rs now t)
           = total_errors ctx"
    and "sent (webrtc_protocol_callback E ctx wsi LWS_CALLBACK_RECEIVE inp rs now t)
           = sent ctx"
  using assms
  by (simp_all add: webrtc_protocol_callback_def Let_def message_queue_push_full)

section \<open>The claims\<close>

text \<open>
  Claim C9. A \<open>leave-room\<close> event from a client that is in no room changes nothing and
  sends nothing: \<open>handle_leave_room\<close> returns the context as it was (clients, rooms and
  the trace of sent envelopes included), and the dispatcher, which counts every message
  of a known connection, changes only that counter.
\<close>

theorem leave_room_without_room_noop:
  assumes "c_room (clients ctx ! c) = None"
  shows "handle_leave_room E ctx c now = ctx
       \<and> (client_registry_find_by_wsi ctx wsi = Some c \<longrightarrow>
            process_client_message E ctx wsi EVENT_LEAVE_ROOM dat rs now
              = ctx\<lparr>total_messages := total_messages ctx + 1\<rparr>)"
  using assms
  by (simp add: handle_leave_room_def process_client_message_def EVENT_LEAVE_ROOM_def
      EVENT_JOIN_ROOM_def)

theorem leave_room_without_room_noop_witness:
  "c_room (clients demo_connected ! 0) = None
   \<and> handle_leave_room demo_extern demo_connected 0 104 = demo_connected
   \<and> client_registry_find_by_wsi demo_connected (Some 7) = Some 0
   \<and> process_client_message demo_extern demo_connected (Some 7) EVENT_LEAVE_ROOM None
        (\<lambda>_. 0) 104
       = demo_connected\<lparr>total_messages := total_messages demo_connected + 1\<rparr>"
proof -
  have h: "c_room (clients demo_connected ! 0) = None"
    by (simp add: demo_connected_eq demo_client_A_def)
  have f: "client_registry_find_by_wsi demo_connected (Some 7) = Some 0"
    by (simp add: demo_connected_eq demo_client_A_def client_registry_find_by_wsi_def)
  show ?thesis
    using h f
      leave_room_without_room_noop [OF h, of demo_extern 104 "Some 7" None "\<lambda>_. 0"]
    by simp
qed

text \<open>
  Claim C10. In a room whose \<open>participant_count\<close> is the number of its occupied slots,
  a room that is not full has an empty slot, so \<open>room_add_participant\<close> never reaches its
  last \<open>return -4\<close>: it answers 0, -1, -2 or -3 (and -1 for a \<open>NULL\<close> room).
\<close>

theorem room_add_participant_results:
  assumes len: "length (r_participants (rooms ctx ! r)) = MAX_PARTICIPANTS"
      and cnt: "unat (r_participant_count (rooms ctx ! r)) =
                  length (filter (\<lambda>p. p_client p \<noteq> None) (r_participants (rooms ctx ! r)))"
  shows "(\<not> room_is_full ctx (Some r) \<longrightarrow>
            (\<exists>i<MAX_PARTICIPANTS. p_client (r_participants (rooms ctx ! r) ! i) = None))
       \<and> snd (room_add_participant ctx (Some r) cp now) \<noteq> -4
       \<and> snd (room_add_participant ctx (Some r) cp now) \<in> {0, -1, -2, -3}
       \<and> snd (room_add_participant ctx None cp now) = -1"
proof -
  let ?ps = "r_participants (rooms ctx ! r)"
  have slot: "\<exists>i. first_index (\<lambda>p. p_client p = None) (take MAX_PARTICIPANTS ?ps) = Some i"
    if "\<not> room_is_full ctx (Some r)"
    using that free_slot_exists [OF len cnt] by (simp add: room_is_full_def)
  have a: "\<exists>i<MAX_PARTICIPANTS. p_client (?ps ! i) = None" if nf: "\<not> room_is_full ctx (Some r)"
  proof -
    from slot [OF nf] obtain i
      where "first_index (\<lambda>p. p_client p = None) (take MAX_PARTICIPANTS ?ps) = Some i" ..
    then have "i < MAX_PARTICIPANTS \<and> p_client (?ps ! i) = None"
      using len by (simp add: first_index_Some_iff)
    then show ?thesis by blast
  qed
  have b: "snd (room_add_participant ctx (Some r) cp now) \<in> {0, -1, -2, -3}"
  proof (cases cp)
    case None
    then show ?thesis by (simp add: room_add_participant_def)
  next
    case (Some c)
    show ?thesis
    proof (cases "room_is_full ctx (Some r)")
      case True
      with Some show ?thesis by (simp add: room_add_participant_def)
    next
      case False
      from slot [OF False] obtain i
        where "first_index (\<lambda>p. p_client p = None) (take MAX_PARTICIPANTS ?ps) = Some i" ..
      with Some False show ?thesis
        by (simp add: room_add_participant_def Let_def)
    qed
  qed
  have c: "snd (room_add_participant ctx None cp now) = -1"
    by (simp add: room_add_participant_def)
  from a b c show ?thesis by auto
qed

theorem room_add_participant_results_witness:
  "length (r_participants (rooms demo_second ! 0)) = MAX_PARTICIPANTS
   \<and> unat (r_participant_count (rooms demo_second ! 0)) =
       length (filter (\<lambda>p. p_client p \<noteq> None) (r_participants (rooms demo_second ! 0)))
   \<and> \<not> room_is_full demo_second (Some 0)
   \<and> (\<exists>i<MAX_PARTICIPANTS. p_client (r_participants (rooms demo_second ! 0) ! i) = None)
   \<and> snd (room_add_participant demo_second (Some 0) (Some 1) 103) \<noteq> -4
   \<and> snd (room_add_participant demo_second (Some 0) (Some 1) 103) \<in> {0, -1, -2, -3}
   \<and> snd (room_add_participant demo_second None (Some 1) 103) = -1"
proof -
  have len: "length (r_participants (rooms demo_second ! 0)) = MAX_PARTICIPANTS"
    by (simp add: demo_second_eq demo_joined_eq demo_room_def MAX_PARTICIPANTS_def)
  have cnt: "unat (r_participant_count (rooms demo_second ! 0)) =
       length (filter (\<lambda>p. p_client p \<noteq> None) (r_participants (rooms demo_second ! 0)))"
    by (simp add: demo_second_eq demo_joined_eq demo_room_def zero_participant_def)
  have nf: "\<not> room_is_full demo_second (Some 0)"
    by (simp add: demo_second_eq demo_joined_eq demo_room_def room_is_full_def
        MAX_PARTICIPANTS_def)
  show ?thesis
    using len cnt nf room_add_participant_results [OF len cnt, of "Some 1" 103]
    by simp
qed

text \<open>
  Claim C7. \<open>room_remove_participant\<close> on a client that sits in the room, in a room of
  the data model: the count is the number of occupied slots, the client occupies one
  slot, and a slot flagged \<open>is_owner\<close> holds the room's owner. The call answers 0; the
  client's slot is cleared and no slot holds the client any more; the count goes down by
  one and still is the number of occupied slots; the client's back-reference is \<open>NULL\<close>
  and its state \<open>CLIENT_STATE_CONNECTED\<close>. When the client was the owner and the count
  stays positive, the lowest occupied slot holds the new owner, and it is the one slot
  flagged \<open>is_owner\<close>.
\<close>

theorem room_remove_participant_effect:
  assumes r: "r < length (rooms ctx)" and c: "c < length (clients ctx)"
      and len: "length (r_participants (rooms ctx ! r)) = MAX_PARTICIPANTS"
      and cnt: "unat (r_participant_count (rooms ctx ! r)) =
                  length (filter (\<lambda>p. p_client p \<noteq> None) (r_participants (rooms ctx ! r)))"
      and once: "length (filter (\<lambda>p. p_client p = Some c)
                           (r_participants (rooms ctx ! r))) = 1"
      and flags: "\<forall>p\<in>set (r_participants (rooms ctx ! r)).
                    p_is_owner p \<longrightarrow> p_client p = r_owner (rooms ctx ! r)"
  shows "\<exists>i<MAX_PARTICIPANTS.
           p_client (r_participants (rooms ctx ! r) ! i) = Some c
         \<and> (let res = room_remove_participant ctx (Some r) (Some c) now;
                 rm' = rooms (fst res) ! r;
                 cl' = clients (fst res) ! c
             in snd res = 0
              \<and> p_client (r_participants rm' ! i) = None
              \<and> \<not> p_is_owner (r_participants rm' ! i)
              \<and> (\<forall>p\<in>set (r_participants rm'). p_client p \<noteq> Some c)
              \<and> r_participant_count rm' = r_participant_count (rooms ctx ! r) - 1
              \<and> unat (r_participant_count rm') =
                  length (filter (\<lambda>p. p_client p \<noteq> None) (r_participants rm'))
              \<and> c_room cl' = None \<and> c_state cl' = CLIENT_STATE_CONNECTED
              \<and> (r_owner (rooms ctx ! r) = Some c \<and> 0 < r_participant_count rm' \<longrightarrow>
                   (\<exists>j<MAX_PARTICIPANTS.
                        (\<forall>k<j. p_client (r_participants rm' ! k) = None)
                      \<and> p_client (r_participants rm' ! j) \<noteq> None
                      \<and> r_owner rm' = p_client (r_participants rm' ! j)
                      \<and> p_is_owner (r_participants rm' ! j)
                      \<and> length (filter p_is_owner (r_participants rm')) = 1)))"
proof -
  let ?rm = "rooms ctx ! r"
  let ?ps = "r_participants ?rm"
  from once have "0 < length (filter (\<lambda>p. p_client p = Some c) ?ps)" by simp
  then have "\<exists>p\<in>set ?ps. p_client p = Some c"
    unfolding filter_pos_length .
  then obtain p where "p \<in> set (take MAX_PARTICIPANTS ?ps)" "p_client p = Some c"
    using len by auto
  then obtain i where fi: "first_index (\<lambda>p. p_client p = Some c) (take MAX_PARTICIPANTS ?ps) = Some i"
    by (rule first_index_exists [where P = "\<lambda>p. p_client p = Some c"])
  then have i: "i < MAX_PARTICIPANTS" and at: "p_client (?ps ! i) = Some c"
    using len by (simp_all add: first_index_Some_iff)
  have il: "i < length ?ps" using i len by simp
  let ?rm' = "remove_at ?rm c i now"
  note res = room_remove_participant_found [OF fi, of now]
  have rm': "rooms (fst (room_remove_participant ctx (Some r) (Some c) now)) ! r = ?rm'"
    using r by (simp add: res)
  have cl': "clients (fst (room_remove_participant ctx (Some r) (Some c) now)) ! c
               = (clients ctx ! c)\<lparr>c_room := None, c_state := CLIENT_STATE_CONNECTED\<rparr>"
    using c by (simp add: res)
  have ret: "snd (room_remove_participant ctx (Some r) (Some c) now) = 0"
    by (simp add: res)
  have occ: "length (filter (\<lambda>p. p_client p \<noteq> None) (r_participants ?rm')) + 1
               = unat (r_participant_count ?rm)"
    using remove_at_occupied [OF il, of c now] at cnt by simp
  then have "r_participant_count ?rm \<noteq> 0"
    by (metis Suc_eq_plus1 nat.distinct(1) unat_0)
  then have "unat (r_participant_count ?rm - 1) = unat (r_participant_count ?rm) - 1"
    by (rule unat_minus_one)
  with occ have cnt': "unat (r_participant_count ?rm') =
                  length (filter (\<lambda>p. p_client p \<noteq> None) (r_participants ?rm'))"
    unfolding remove_at_count by linarith
  have owner: "\<exists>j<MAX_PARTICIPANTS.
                        (\<forall>k<j. p_client (r_participants ?rm' ! k) = None)
                      \<and> p_client (r_participants ?rm' ! j) \<noteq> None
                      \<and> r_owner ?rm' = p_client (r_participants ?rm' ! j)
                      \<and> p_is_owner (r_participants ?rm' ! j)
                      \<and> length (filter p_is_owner (r_participants ?rm')) = 1"
    if "r_owner ?rm = Some c" and "0 < r_participant_count ?rm'"
    using that remove_at_owner_leaves [OF len i at once flags cnt, of now]
    by (simp add: remove_at_count)
  have body: "p_client (?ps ! i) = Some c
         \<and> (let res = room_remove_participant ctx (Some r) (Some c) now;
                 rm' = rooms (fst res) ! r;
                 cl' = clients (fst res) ! c
             in snd res = 0
              \<and> p_client (r_participants rm' ! i) = None
              \<and> \<not> p_is_owner (r_participants rm' ! i)
              \<and> (\<forall>p\<in>set (r_participants rm'). p_client p \<noteq> Some c)
              \<and> r_participant_count rm' = r_participant_count ?rm - 1
              \<and> unat (r_participant_count rm') =
                  length (filter (\<lambda>p. p_client p \<noteq> None) (r_participants rm'))
              \<and> c_room cl' = None \<and> c_state cl' = CLIENT_STATE_CONNECTED
              \<and> (r_owner ?rm = Some c \<and> 0 < r_participant_count rm' \<longrightarrow>
                   (\<exists>j<MAX_PARTICIPANTS.
                        (\<forall>k<j. p_client (r_participants rm' ! k) = None)
                      \<and> p_client (r_participants rm' ! j) \<noteq> None
                      \<and> r_owner rm' = p_client (r_participants rm' ! j)
                      \<and> p_is_owner (r_participants rm' ! j)
                      \<and> length (filter p_is_owner (r_participants rm')) = 1)))"
    unfolding Let_def rm' cl' ret
    using at remove_at_slot [OF il, of c now] remove_at_slot_flag [OF il, of c now]
      remove_at_absent [OF il at once, of now] remove_at_count [of ?rm c i now] cnt' owner
    by (intro conjI impI) simp_all
  with i show ?thesis by blast
qed

theorem room_remove_participant_effect_witness:
  "0 < length (rooms demo_two) \<and> 0 < length (clients demo_two)
   \<and> length (r_participants (rooms demo_two ! 0)) = MAX_PARTICIPANTS
   \<and> unat (r_participant_count (rooms demo_two ! 0)) =
       length (filter (\<lambda>p. p_client p \<noteq> None) (r_participants (rooms demo_two ! 0)))
   \<and> length (filter (\<lambda>p. p_client p = Some 0) (r_participants (rooms demo_two ! 0))) = 1
   \<and> list_all (\<lambda>p. p_is_owner p \<longrightarrow> p_client p = r_owner (rooms demo_two ! 0))
         (r_participants (rooms demo_two ! 0))
   \<and> r_owner (rooms demo_two ! 0) = Some 0
   \<and> (\<exists>i<MAX_PARTICIPANTS.
           p_client (r_participants (rooms demo_two ! 0) ! i) = Some 0
         \<and> (let res = room_remove_participant demo_two (Some 0) (Some 0) 104;
                 rm' = rooms (fst res) ! 0;
                 cl' = clients (fst res) ! 0
             in snd res = 0
              \<and> p_client (r_participants rm' ! i) = None
              \<and> \<not> p_is_owner (r_participants rm' ! i)
              \<and> (\<forall>p\<in>set (r_participants rm'). p_client p \<noteq> Some 0)
              \<and> r_participant_count rm' = r_participant_count (rooms demo_two ! 0) - 1
              \<and> unat (r_participant_count rm') =
                  length (filter (\<lambda>p. p_client p \<noteq> None) (r_participants rm'))
              \<and> c_room cl' = None \<and> c_state cl' = CLIENT_STATE_CONNECTED
              \<and> (r_owner (rooms demo_two ! 0) = Some 0 \<and> 0 < r_participant_count rm' \<longrightarrow>
                   (\<exists>j<MAX_PARTICIPANTS.
                        (\<forall>k<j. p_client (r_participants rm' ! k) = None)
                      \<and> p_client (r_participants rm' ! j) \<noteq> None
                      \<and> r_owner rm' = p_client (r_participants rm' ! j)
                      \<and> p_is_owner (r_participants rm' ! j)
                      \<and> length (filter p_is_owner (r_participants rm')) = 1))))"
proof -
  note st = demo_two_eq demo_second_eq demo_joined_eq demo_boot_eq demo_room_def
    zero_participant_def MAX_PARTICIPANTS_def
  have r: "0 < length (rooms demo_two)" and c: "0 < length (clients demo_two)"
    by (simp_all add: st)
  have len: "length (r_participants (rooms demo_two ! 0)) = MAX_PARTICIPANTS"
    by (simp add: st)
  have cnt: "unat (r_participant_count (rooms demo_two ! 0)) =
       length (filter (\<lambda>p. p_client p \<noteq> None) (r_participants (rooms demo_two ! 0)))"
    by (simp add: st)
  have once: "length (filter (\<lambda>p. p_client p = Some 0)
                        (r_participants (rooms demo_two ! 0))) = 1"
    by (simp add: st)
  have flags: "\<forall>p\<in>set (r_participants (rooms demo_two ! 0)).
         p_is_owner p \<longrightarrow> p_client p = r_owner (rooms demo_two ! 0)"
    by (simp add: st)
  have own: "r_owner (rooms demo_two ! 0) = Some 0"
    by (simp add: st)
  show ?thesis
    using r c len cnt once flags own
      room_remove_participant_effect [OF r c len cnt once flags, of 104]
    unfolding list_all_iff by blast
qed

text \<open>
  Claim C6, as the code has it. Take a context in which every room's owner, if set, sits
  in the room's array, and a room \<open>r\<close> whose count is the number of its occupied slots.
  Then the same holds of every room after \<open>room_add_participant\<close> and after
  \<open>room_cleanup\<close> on \<open>r\<close>, and after \<open>room_remove_participant\<close> on \<open>r\<close> unless the
  call removes the owner as the last participant; in that case the transfer is guarded
  by \<open>participant_count > 0\<close>, the owner field keeps the departed client and the array
  no longer holds it.
\<close>

theorem owner_present_after_room_operations:
  assumes r: "r < length (rooms ctx)"
      and len: "length (r_participants (rooms ctx ! r)) = MAX_PARTICIPANTS"
      and cnt: "unat (r_participant_count (rooms ctx ! r)) =
                  length (filter (\<lambda>p. p_client p \<noteq> None) (r_participants (rooms ctx ! r)))"
      and inv: "\<forall>rm\<in>set (rooms ctx). owner_present rm"
  shows "(\<forall>rm\<in>set (rooms (fst (room_add_participant ctx (Some r) cp now))). owner_present rm)
       \<and> (\<forall>rm\<in>set (rooms (room_cleanup ctx (Some r))). owner_present rm)
       \<and> (cp = None \<or> r_owner (rooms ctx ! r) \<noteq> cp
            \<or> 0 < r_participant_count (rooms ctx ! r) - 1 \<longrightarrow>
            (\<forall>rm\<in>set (rooms (fst (room_remove_participant ctx (Some r) cp now))).
               owner_present rm))
       \<and> (cp \<noteq> None \<and> r_owner (rooms ctx ! r) = cp
            \<and> r_participant_count (rooms ctx ! r) = 1 \<longrightarrow>
            r_owner (rooms (fst (room_remove_participant ctx (Some r) cp now)) ! r) = cp
          \<and> \<not> owner_present (rooms (fst (room_remove_participant ctx (Some r) cp now)) ! r))"
proof (intro conjI impI)
  show "\<forall>rm\<in>set (rooms (fst (room_add_participant ctx (Some r) cp now))). owner_present rm"
    using r inv by (rule room_add_participant_owner)
  show "\<forall>rm\<in>set (rooms (room_cleanup ctx (Some r))). owner_present rm"
    using inv by (rule room_cleanup_owner)
  show "\<forall>rm\<in>set (rooms (fst (room_remove_participant ctx (Some r) cp now))). owner_present rm"
    if "cp = None \<or> r_owner (rooms ctx ! r) \<noteq> cp \<or> 0 < r_participant_count (rooms ctx ! r) - 1"
    using r len cnt inv that by (rule room_remove_participant_owner)
next
  assume a: "cp \<noteq> None \<and> r_owner (rooms ctx ! r) = cp \<and> r_participant_count (rooms ctx ! r) = 1"
  then obtain c where cp: "cp = Some c" by auto
  have op: "owner_present (rooms ctx ! r)" using inv r by simp
  from a cp have own: "r_owner (rooms ctx ! r) = Some c"
    and one: "r_participant_count (rooms ctx ! r) = 1" by simp_all
  note last = room_remove_participant_last_owner [OF r len cnt op own one, of now]
  from last show "r_owner (rooms (fst (room_remove_participant ctx (Some r) cp now)) ! r) = cp"
    unfolding cp by simp
  from last show "\<not> owner_present (rooms (fst (room_remove_participant ctx (Some r) cp now)) ! r)"
    unfolding cp by simp
qed

theorem owner_present_after_room_operations_witness:
  "0 < length (rooms demo_two)
   \<and> length (r_participants (rooms demo_two ! 0)) = MAX_PARTICIPANTS
   \<and> unat (r_participant_count (rooms demo_two ! 0)) =
       length (filter (\<lambda>p. p_client p \<noteq> None) (r_participants (rooms demo_two ! 0)))
   \<and> list_all owner_present (rooms demo_two)
   \<and> 0 < r_participant_count (rooms demo_two ! 0) - 1
   \<and> list_all owner_present
       (rooms (fst (room_add_participant demo_two (Some 0) (Some 0) 104)))
   \<and> list_all owner_present (rooms (room_cleanup demo_two (Some 0)))
   \<and> list_all owner_present
       (rooms (fst (room_remove_participant demo_two (Some 0) (Some 0) 104)))
   \<and> 0 < length (rooms demo_joined)
   \<and> length (r_participants (rooms demo_joined ! 0)) = MAX_PARTICIPANTS
   \<and> unat (r_participant_count (rooms demo_joined ! 0)) =
       length (filter (\<lambda>p. p_client p \<noteq> None) (r_participants (rooms demo_joined ! 0)))
   \<and> list_all owner_present (rooms demo_joined)
   \<and> r_owner (rooms demo_joined ! 0) = Some 0
   \<and> r_participant_count (rooms demo_joined ! 0) = 1
   \<and> r_owner (rooms (fst (room_remove_participant demo_joined (Some 0) (Some 0) 104)) ! 0)
       = Some 0
   \<and> \<not> owner_present
         (rooms (fst (room_remove_participant demo_joined (Some 0) (Some 0) 104)) ! 0)"
proof -
  note st = demo_two_eq demo_second_eq demo_joined_eq demo_boot_eq demo_room_def
    zero_participant_def MAX_PARTICIPANTS_def owner_present_def
  have r1: "0 < length (rooms demo_two)"
    by (simp add: st)
  have len1: "length (r_participants (rooms demo_two ! 0)) = MAX_PARTICIPANTS"
    by (simp add: st)
  have cnt1: "unat (r_participant_count (rooms demo_two ! 0)) =
       length (filter (\<lambda>p. p_client p \<noteq> None) (r_participants (rooms demo_two ! 0)))"
    by (simp add: st)
  have inv1: "\<forall>rm\<in>set (rooms demo_two). owner_present rm"
    by (simp add: st)
  have g1: "0 < r_participant_count (rooms demo_two ! 0) - 1"
    by (simp add: st)
  have r2: "0 < length (rooms demo_joined)"
    by (simp add: st)
  have len2: "length (r_participants (rooms demo_joined ! 0)) = MAX_PARTICIPANTS"
    by (simp add: st)
  have cnt2: "unat (r_participant_count (rooms demo_joined ! 0)) =
       length (filter (\<lambda>p. p_client p \<noteq> None) (r_participants (rooms demo_joined ! 0)))"
    by (simp add: st)
  have inv2: "\<forall>rm\<in>set (rooms demo_joined). owner_present rm"
    by (simp add: st)
  have g2: "r_owner (rooms demo_joined ! 0) = Some 0"
    "r_participant_count (rooms demo_joined ! 0) = 1"
    by (simp_all add: st)
  note t1 = owner_present_after_room_operations [OF r1 len1 cnt1 inv1, of "Some 0" 104]
  note t2 = owner_present_after_room_operations [OF r2 len2 cnt2 inv2, of "Some 0" 104]
  from t1 g1 have a: "\<forall>rm\<in>set (rooms (fst (room_add_participant demo_two (Some 0) (Some 0) 104))).
         owner_present rm"
    and b: "\<forall>rm\<in>set (rooms (room_cleanup demo_two (Some 0))). owner_present rm"
    and c: "\<forall>rm\<in>set (rooms (fst (room_remove_participant demo_two (Some 0) (Some 0) 104))).
         owner_present rm"
    by blast+
  from t2 g2 have d: "r_owner (rooms (fst (room_remove_participant demo_joined (Some 0) (Some 0) 104)) ! 0)
       = Some 0"
    and e: "\<not> owner_present
         (rooms (fst (room_remove_participant demo_joined (Some 0) (Some 0) 104)) ! 0)"
    by blast+
  from r1 len1 cnt1 inv1 g1 a b c r2 len2 cnt2 inv2 g2 d e show ?thesis
    unfolding list_all_iff by (intro conjI)
qed

text \<open>
  The claim as it stands fails when the owner is the last to leave: in the example run,
  after the only participant A is removed, the room still names A (slot 0 of the client
  array) as its owner and every slot of the room is empty.
\<close>

theorem owner_left_behind_counterexample:
  "snd (room_remove_participant demo_joined (Some 0) (Some 0) 104) = 0
   \<and> r_owner (rooms (fst (room_remove_participant demo_joined (Some 0) (Some 0) 104)) ! 0)
       = Some 0
   \<and> map p_client
        (r_participants
           (rooms (fst (room_remove_participant demo_joined (Some 0) (Some 0) 104)) ! 0))
       = [None, None, None, None, None, None]"
  by (simp add: demo_joined_eq demo_boot_eq demo_room_def zero_participant_def
      MAX_PARTICIPANTS_def room_remove_participant_def remove_at_def)

text \<open>
  Claim C5, as the code has it. A client that is in a room (and whose connection is
  live) sends \<open>offer\<close>, \<open>answer\<close> or \<open>ice-candidate\<close>. When the payload has no
  \<open>targetClientId\<close>, or has one that is not a JSON string, so that
  \<open>json_string_value\<close> answers \<open>NULL\<close>, the handler replies
  \<open>error("Missing target client ID")\<close> to the sender and does nothing else. The handlers
  test the pointer only: an empty string is an identifier like any other, it is looked up
  in the room, and when no participant has it the reply is
  \<open>error("Target client not found in room")\<close>.
\<close>

theorem missing_target_client_id:
  assumes room: "c_room (clients ctx ! c) \<noteq> None"
      and alive: "c_is_alive (clients ctx ! c)" and wsi: "c_wsi (clients ctx ! c) \<noteq> None"
  shows "(json_string_value (json_object_get dat ''targetClientId'') = None \<longrightarrow>
            replies_error_only ctx c ''Missing target client ID'' (handle_offer_message E ctx c dat)
          \<and> replies_error_only ctx c ''Missing target client ID'' (handle_answer_message E ctx c dat)
          \<and> replies_error_only ctx c ''Missing target client ID'' (handle_ice_candidate E ctx c dat))
       \<and> (json_string_value (json_object_get dat ''targetClientId'') = Some []
            \<and> room_find_participant ctx (c_room (clients ctx ! c)) (Some []) = None \<longrightarrow>
            replies_error_only ctx c ''Target client not found in room''
              (handle_offer_message E ctx c dat)
          \<and> replies_error_only ctx c ''Target client not found in room''
              (handle_answer_message E ctx c dat)
          \<and> replies_error_only ctx c ''Target client not found in room''
              (handle_ice_candidate E ctx c dat))"
proof -
  from room obtain r2 where rm: "c_room (clients ctx ! c) = Some r2" by auto
  show ?thesis
  proof (intro conjI impI)
  assume none: "json_string_value (json_object_get dat ''targetClientId'') = None"
  note err = client_send_message_error [OF alive wsi, of "''Missing target client ID''" E]
  from rm none err
  show "replies_error_only ctx c ''Missing target client ID'' (handle_offer_message E ctx c dat)"
    by (simp add: handle_offer_message_def Let_def json_string_value_def)
  from rm none err
  show "replies_error_only ctx c ''Missing target client ID'' (handle_answer_message E ctx c dat)"
    by (simp add: handle_answer_message_def Let_def json_string_value_def)
  from rm none err
  show "replies_error_only ctx c ''Missing target client ID'' (handle_ice_candidate E ctx c dat)"
    by (simp add: handle_ice_candidate_def Let_def json_string_value_def)
next
  assume a: "json_string_value (json_object_get dat ''targetClientId'') = Some []
            \<and> room_find_participant ctx (c_room (clients ctx ! c)) (Some []) = None"
  then have a1: "json_object_get dat ''targetClientId'' = Some (JString [])"
    by (auto simp: json_string_value_def split: option.splits json.splits)
  from a have a2: "room_find_participant ctx (Some r2) (Some []) = None"
    using rm by simp
  note a = a1 a2
  note err = client_send_message_error [OF alive wsi, of "''Target client not found in room''" E]
  from rm a err
  show "replies_error_only ctx c ''Target client not found in room''
          (handle_offer_message E ctx c dat)"
    by (simp add: handle_offer_message_def Let_def json_string_value_def)
  from rm a err
  show "replies_error_only ctx c ''Target client not found in room''
          (handle_answer_message E ctx c dat)"
    by (simp add: handle_answer_message_def Let_def json_string_value_def)
  from rm a err
  show "replies_error_only ctx c ''Target client not found in room''
          (handle_ice_candidate E ctx c dat)"
    by (simp add: handle_ice_candidate_def Let_def json_string_value_def)
  qed
qed

theorem missing_target_client_id_witness:
  "c_room (clients demo_joined ! 0) \<noteq> None
   \<and> c_is_alive (clients demo_joined ! 0) \<and> c_wsi (clients demo_joined ! 0) \<noteq> None
   \<and> json_string_value
         (json_object_get (Some (JObject [(''offer'', JString ''sdp'')])) ''targetClientId'') = None
   \<and> replies_error_only demo_joined 0 ''Missing target client ID''
         (handle_offer_message demo_extern demo_joined 0
            (Some (JObject [(''offer'', JString ''sdp'')])))
   \<and> replies_error_only demo_joined 0 ''Missing target client ID''
         (handle_answer_message demo_extern demo_joined 0
            (Some (JObject [(''offer'', JString ''sdp'')])))
   \<and> replies_error_only demo_joined 0 ''Missing target client ID''
         (handle_ice_candidate demo_extern demo_joined 0
            (Some (JObject [(''offer'', JString ''sdp'')])))
   \<and> json_string_value
         (json_object_get (Some (JObject [(''targetClientId'', JString [])])) ''targetClientId'')
       = Some []
   \<and> room_find_participant demo_joined (c_room (clients demo_joined ! 0)) (Some []) = None
   \<and> replies_error_only demo_joined 0 ''Target client not found in room''
         (handle_offer_message demo_extern demo_joined 0
            (Some (JObject [(''targetClientId'', JString [])])))
   \<and> replies_error_only demo_joined 0 ''Target client not found in room''
         (handle_answer_message demo_extern demo_joined 0
            (Some (JObject [(''targetClientId'', JString [])])))
   \<and> replies_error_only demo_joined 0 ''Target client not found in room''
         (handle_ice_candidate demo_extern demo_joined 0
            (Some (JObject [(''targetClientId'', JString [])])))"
proof -
  note st = demo_joined_eq demo_boot_eq demo_client_A_def demo_room_def zero_participant_def
  have room: "c_room (clients demo_joined ! 0) \<noteq> None"
    and alive: "c_is_alive (clients demo_joined ! 0)"
    and wsi: "c_wsi (clients demo_joined ! 0) \<noteq> None"
    by (simp_all add: st)
  have absent: "json_string_value
         (json_object_get (Some (JObject [(''offer'', JString ''sdp'')])) ''targetClientId'') = None"
    by (simp add: json_string_value_def json_object_get_def)
  have empty: "json_string_value
         (json_object_get (Some (JObject [(''targetClientId'', JString [])])) ''targetClientId'')
       = Some []"
    by (simp add: json_string_value_def json_object_get_def)
  have nobody: "room_find_participant demo_joined (c_room (clients demo_joined ! 0)) (Some [])
                  = None"
    by (simp add: st room_find_participant_def MAX_PARTICIPANTS_def)
  note t1 = missing_target_client_id [OF room alive wsi,
      of "Some (JObject [(''offer'', JString ''sdp'')])" demo_extern]
  note t2 = missing_target_client_id [OF room alive wsi,
      of "Some (JObject [(''targetClientId'', JString [])])" demo_extern]
  from t1 absent have a:
    "replies_error_only demo_joined 0 ''Missing target client ID''
         (handle_offer_message demo_extern demo_joined 0
            (Some (JObject [(''offer'', JString ''sdp'')])))"
    "replies_error_only demo_joined 0 ''Missing target client ID''
         (handle_answer_message demo_extern demo_joined 0
            (Some (JObject [(''offer'', JString ''sdp'')])))"
    "replies_error_only demo_joined 0 ''Missing target client ID''
         (handle_ice_candidate demo_extern demo_joined 0
            (Some (JObject [(''offer'', JString ''sdp'')])))"
    by blast+
  from t2 empty nobody have b:
    "replies_error_only demo_joined 0 ''Target client not found in room''
         (handle_offer_message demo_extern demo_joined 0
            (Some (JObject [(''targetClientId'', JString [])])))"
    "replies_error_only demo_joined 0 ''Target client not found in room''
         (handle_answer_message demo_extern demo_joined 0
            (Some (JObject [(''targetClientId'', JString [])])))"
    "replies_error_only demo_joined 0 ''Target client not found in room''
         (handle_ice_candidate demo_extern demo_joined 0
            (Some (JObject [(''targetClientId'', JString [])])))"
    by blast+
  from room alive wsi absent a empty nobody b show ?thesis
    by (intro conjI)
qed

text \<open>
  The claim as it stands fails for the empty string: in the example run, A is in its
  room and sends an offer whose \<open>targetClientId\<close> is \<open>""\<close>; the reply is not
  \<open>Missing target client ID\<close>.
\<close>

theorem empty_target_counterexample:
  "c_room (clients demo_joined ! 0) = Some 0
   \<and> json_object_get (Some (JObject [(''targetClientId'', JString []), (''offer'', JString ''sdp'')]))
        ''targetClientId'' = Some (JString [])
   \<and> sent (handle_offer_message demo_extern demo_joined 0
              (Some (JObject [(''targetClientId'', JString []), (''offer'', JString ''sdp'')])))
       = sent demo_joined
           @ [(0, \<lparr>m_event = ''error'',
                    m_data = Some (JString ''Target client not found in room'')\<rparr>)]"
  by (simp add: demo_joined_eq demo_boot_eq demo_client_A_def demo_room_def
      zero_participant_def handle_offer_message_def json_object_get_def json_string_value_def
      room_find_participant_def MAX_PARTICIPANTS_def client_send_message_def demo_extern_def
      EVENT_ERROR_def)

text \<open>
  Claim C8. A live client that is not a member of room \<open>r\<close> sends \<open>join-room\<close> with the
  identifier of \<open>r\<close>, and \<open>r\<close> is full. The handler first runs the implicit leave of the
  client's current room, if it has one; after that its only effect is one
  \<open>error("Room is full (max 6 participants)")\<close> to the client. The record of room \<open>r\<close>
  (array, count and owner included) is what it was. With the client in no room the
  whole join is that one reply. No client in a slot of \<open>r\<close> receives a \<open>participants\<close>
  envelope, given that no client sits both in the sender's current room and in \<open>r\<close>.
\<close>

theorem join_full_room_refused:
  assumes c: "c < length (clients ctx)"
      and alive: "c_is_alive (clients ctx ! c)" and wsi: "c_wsi (clients ctx ! c) \<noteq> None"
      and rid: "json_string_value (json_object_get dat ''roomId'') = Some rid"
      and found: "room_registry_find_by_id ctx (Some rid) = Some r"
      and full: "room_is_full ctx (Some r)"
      and other: "c_room (clients ctx ! c) \<noteq> Some r"
      and apart: "\<forall>r2. c_room (clients ctx ! c) = Some r2 \<longrightarrow>
                    r2 < length (rooms ctx)
                    \<and> (\<forall>p\<in>set (r_participants (rooms ctx ! r2)).
                          p_client p \<noteq> None \<longrightarrow>
                          p_client p \<notin> p_client ` set (r_participants (rooms ctx ! r)))"
  shows "replies_error_only (handle_leave_room E ctx c now) c
           ''Room is full (max 6 participants)'' (handle_join_room E ctx c dat rs now)
       \<and> rooms (handle_join_room E ctx c dat rs now) ! r = rooms ctx ! r
       \<and> (c_room (clients ctx ! c) = None \<longrightarrow>
            replies_error_only ctx c ''Room is full (max 6 participants)''
              (handle_join_room E ctx c dat rs now))
       \<and> (\<forall>km\<in>set (drop (length (sent ctx)) (sent (handle_join_room E ctx c dat rs now))).
            Some (fst km) \<in> p_client ` set (r_participants (rooms ctx ! r)) \<longrightarrow>
            m_event (snd km) \<noteq> EVENT_PARTICIPANTS_LIST)"
proof -
  let ?ctx1 = "handle_leave_room E ctx c now"
  let ?ctx' = "handle_join_room E ctx c dat rs now"
  let ?msg = "''Room is full (max 6 participants)''"
  from apart have valid: "\<forall>r2. c_room (clients ctx ! c) = Some r2 \<longrightarrow> r2 < length (rooms ctx)"
    by blast
  from handle_leave_room_elsewhere [OF other valid, of E now]
  have same: "rooms ?ctx1 ! r = rooms ctx ! r"
    and st: "map r_state (rooms ?ctx1) = map r_state (rooms ctx)"
    and ids: "map r_id (rooms ?ctx1) = map r_id (rooms ctx)"
    and al: "map c_is_alive (clients ?ctx1) = map c_is_alive (clients ctx)"
    and ws: "map c_wsi (clients ?ctx1) = map c_wsi (clients ctx)"
    and snt: "\<exists>xs. sent ?ctx1 = sent ctx @ xs
              \<and> (\<forall>km\<in>set xs. \<exists>r2. c_room (clients ctx ! c) = Some r2
                     \<and> Some (fst km) \<in> p_client ` set (r_participants (rooms ctx ! r2)))"
    by blast+
  from al have "length (clients ?ctx1) = length (clients ctx)"
    by (metis length_map)
  with c have c1: "c < length (clients ?ctx1)" by simp
  have alive1: "c_is_alive (clients ?ctx1 ! c)"
    using alive c c1 al by (metis nth_map)
  have wsi1: "c_wsi (clients ?ctx1 ! c) \<noteq> None"
    using wsi c c1 ws by (metis nth_map)
  have found1: "room_registry_find_by_id ?ctx1 (Some rid) = Some r"
    using found find_by_id_cong [OF st ids, of "Some rid"] by simp
  have full1: "room_is_full ?ctx1 (Some r)"
    using full same by (simp add: room_is_full_def)
  have add: "room_add_participant ?ctx1 (Some r) (Some c) now = (?ctx1, -1)"
    using full1 by (simp add: room_add_participant_def)
  have tail: "join_room_tail E ?ctx1 r c now
                = fst (client_send_message E ?ctx1 c EVENT_ERROR (Some ?msg))"
    by (simp add: join_room_tail_def add)
  from rid have got: "json_object_get dat ''roomId'' \<noteq> None" "dat \<noteq> None"
    by (auto simp: json_string_value_def json_object_get_def split: option.splits)
  have join: "?ctx' = fst (client_send_message E ?ctx1 c EVENT_ERROR (Some ?msg))"
    using rid got found1 tail by (simp add: handle_join_room_def Let_def)
  have rep: "replies_error_only ?ctx1 c ?msg ?ctx'"
    unfolding join using alive1 wsi1 by (rule client_send_message_error)
  then have rooms': "rooms ?ctx' = rooms ?ctx1"
    and sent': "sent ?ctx' = sent ?ctx1 @ [(c, \<lparr>m_event = ''error'', m_data = Some (JString ?msg)\<rparr>)]"
    by (simp_all add: replies_error_only_def)
  have unchanged: "rooms ?ctx' ! r = rooms ctx ! r"
    using rooms' same by simp
  have noroom: "replies_error_only ctx c ?msg ?ctx'" if "c_room (clients ctx ! c) = None"
  proof -
    from that have "?ctx1 = ctx" by (simp add: handle_leave_room_def)
    with rep show ?thesis by simp
  qed
  from snt obtain xs where xs: "sent ?ctx1 = sent ctx @ xs"
    "\<forall>km\<in>set xs. \<exists>r2. c_room (clients ctx ! c) = Some r2
        \<and> Some (fst km) \<in> p_client ` set (r_participants (rooms ctx ! r2))"
    by blast
  have new: "drop (length (sent ctx)) (sent ?ctx')
               = xs @ [(c, \<lparr>m_event = ''error'', m_data = Some (JString ?msg)\<rparr>)]"
    unfolding sent' xs(1) by simp
  have quiet: "m_event (snd km) \<noteq> EVENT_PARTICIPANTS_LIST"
    if km: "km \<in> set (drop (length (sent ctx)) (sent ?ctx'))"
      and mem: "Some (fst km) \<in> p_client ` set (r_participants (rooms ctx ! r))" for km
  proof (cases "km \<in> set xs")
    case True
    with xs(2) obtain r2 where r2: "c_room (clients ctx ! c) = Some r2"
      and "Some (fst km) \<in> p_client ` set (r_participants (rooms ctx ! r2))"
      by blast
    then obtain p where "p \<in> set (r_participants (rooms ctx ! r2))" "p_client p = Some (fst km)"
      by auto
    with apart r2 have "Some (fst km) \<notin> p_client ` set (r_participants (rooms ctx ! r))"
      by (metis option.distinct(1))
    with mem show ?thesis by contradiction
  next
    case False
    with km have "km = (c, \<lparr>m_event = ''error'', m_data = Some (JString ?msg)\<rparr>)"
      unfolding new by simp
    then show ?thesis by (simp add: EVENT_PARTICIPANTS_LIST_def)
  qed
  from rep unchanged noroom quiet show ?thesis by blast
qed

theorem join_full_room_refused_witness:
  "6 < length (clients demo_full)
   \<and> c_is_alive (clients demo_full ! 6) \<and> c_wsi (clients demo_full ! 6) \<noteq> None
   \<and> json_string_value
         (json_object_get (Some (JObject [(''roomId'', JString ''room-full'')])) ''roomId'')
       = Some ''room-full''
   \<and> room_registry_find_by_id demo_full (Some ''room-full'') = Some 0
   \<and> room_is_full demo_full (Some 0)
   \<and> c_room (clients demo_full ! 6) = Some 1
   \<and> replies_error_only (handle_leave_room demo_extern demo_full 6 200) 6
         ''Room is full (max 6 participants)''
         (handle_join_room demo_extern demo_full 6
            (Some (JObject [(''roomId'', JString ''room-full'')])) (\<lambda>_. 0) 200)
   \<and> rooms (handle_join_room demo_extern demo_full 6
               (Some (JObject [(''roomId'', JString ''room-full'')])) (\<lambda>_. 0) 200) ! 0
       = rooms demo_full ! 0
   \<and> list_all
         (\<lambda>km. Some (fst km) \<in> p_client ` set (r_participants (rooms demo_full ! 0)) \<longrightarrow>
               m_event (snd km) \<noteq> EVENT_PARTICIPANTS_LIST)
         (drop (length (sent demo_full))
            (sent (handle_join_room demo_extern demo_full 6
                     (Some (JObject [(''roomId'', JString ''room-full'')])) (\<lambda>_. 0) 200)))"
proof -
  note st = demo_full_def demo_member_def demo_slot_def zero_participant_def
  have c: "6 < length (clients demo_full)"
    and alive: "c_is_alive (clients demo_full ! 6)"
    and wsi: "c_wsi (clients demo_full ! 6) \<noteq> None"
    by (simp_all add: st)
  have rid: "json_string_value
         (json_object_get (Some (JObject [(''roomId'', JString ''room-full'')])) ''roomId'')
       = Some ''room-full''"
    by (simp add: json_string_value_def json_object_get_def)
  have found: "room_registry_find_by_id demo_full (Some ''room-full'') = Some 0"
    by (simp add: st room_registry_find_by_id_def)
  have full: "room_is_full demo_full (Some 0)"
    by (simp add: st room_is_full_def MAX_PARTICIPANTS_def)
  have room: "c_room (clients demo_full ! 6) = Some 1"
    by (simp add: st)
  then have other: "c_room (clients demo_full ! 6) \<noteq> Some 0" by simp
  have apart: "\<forall>r2. c_room (clients demo_full ! 6) = Some r2 \<longrightarrow>
                    r2 < length (rooms demo_full)
                    \<and> (\<forall>p\<in>set (r_participants (rooms demo_full ! r2)).
                          p_client p \<noteq> None \<longrightarrow>
                          p_client p \<notin> p_client ` set (r_participants (rooms demo_full ! 0)))"
    unfolding room by (simp add: st)
  note t = join_full_room_refused [OF c alive wsi rid found full other apart,
      of demo_extern 200 "\<lambda>_. 0"]
  from c alive wsi rid found full room t show ?thesis
    unfolding list_all_iff by blast
qed

text \<open>
  Claim C1, on the code. In the example run A is connected and in no room, and sends
  \<open>join-room\<close> without data. \<open>room_registry_create\<close> takes room slot 0, and
  \<open>room_init\<close> already adds the owner A as the first participant. \<open>handle_join_room\<close>
  sends \<open>room-created\<close> and then calls \<open>room_add_participant\<close> once more: A is found
  in the room, the call answers -2, and the handler sends the error
  \<open>Room is full (max 6 participants)\<close> and returns before the broadcast. A is the
  owner and sits in slot 0, and the trace gains \<open>room-created\<close> and the error, and no
  \<open>participants\<close> envelope.
\<close>

theorem new_room_join_reports_full:
  "client_registry_find_by_wsi demo_connected (Some 7) = Some 0
   \<and> c_room (clients demo_connected ! 0) = None
   \<and> sent (process_client_message demo_extern demo_connected (Some 7) EVENT_JOIN_ROOM None
              (\<lambda>_. 1) 101)
       = sent demo_connected
           @ [(0, \<lparr>m_event = ''room-created'', m_data = Some (JString ''payload'')\<rparr>),
              (0, \<lparr>m_event = ''error'',
                    m_data = Some (JString ''Room is full (max 6 participants)'')\<rparr>)]
   \<and> r_owner (rooms (process_client_message demo_extern demo_connected (Some 7)
                        EVENT_JOIN_ROOM None (\<lambda>_. 1) 101) ! 0) = Some 0
   \<and> map p_client
        (r_participants (rooms (process_client_message demo_extern demo_connected (Some 7)
                                  EVENT_JOIN_ROOM None (\<lambda>_. 1) 101) ! 0))
       = [Some 0, None, None, None, None, None]"
proof -
  have "process_client_message demo_extern demo_connected (Some 7) EVENT_JOIN_ROOM None
          (\<lambda>_. 1) 101 = demo_joined"
    by (simp add: demo_joined_def)
  then show ?thesis
    by (simp add: demo_joined_eq demo_connected_eq demo_boot_eq demo_client_A_def
        demo_room_def demo_msg_def zero_participant_def client_registry_find_by_wsi_def)
qed

text \<open>
  Claim C2, on the code. In the example run A and B share room 0; the timeout is 30
  seconds, A was last active at 100 and the reaper runs at 131. The reaper calls
  \<open>client_registry_remove\<close> only: A is no longer alive, yet slot 0 of the room still
  holds A, the count is still 2, and nothing is sent to B. The \<open>closed\<close> callback in the
  same state calls \<open>handle_leave_room\<close> first: the slot is cleared and B is sent the
  new participant list.
\<close>

theorem timed_out_client_stays_in_room:
  "c_room (clients demo_two ! 0) = Some 0
   \<and> client_is_timed_out (clients demo_two ! 0) (client_timeout_sec demo_two) 131
   \<and> \<not> c_is_alive (clients (fst (server_run_cleanup demo_two 100 131)) ! 0)
   \<and> map p_client (r_participants (rooms (fst (server_run_cleanup demo_two 100 131)) ! 0))
       = [Some 0, Some 1, None, None, None, None]
   \<and> r_participant_count (rooms (fst (server_run_cleanup demo_two 100 131)) ! 0) = 2
   \<and> sent (fst (server_run_cleanup demo_two 100 131)) = sent demo_two
   \<and> map p_client
        (r_participants
           (rooms (webrtc_protocol_callback demo_extern demo_two 7 LWS_CALLBACK_CLOSED []
                     (\<lambda>_. 0) 131 0) ! 0))
       = [None, Some 1, None, None, None, None]
   \<and> sent (webrtc_protocol_callback demo_extern demo_two 7 LWS_CALLBACK_CLOSED []
              (\<lambda>_. 0) 131 0)
       = sent demo_two @ [(1, \<lparr>m_event = ''participants'', m_data = Some (JString ''payload'')\<rparr>)]"
  unfolding demo_two_eq demo_second_eq demo_joined_eq demo_boot_eq
  by (simp add: demo_client_A_def demo_client_B_def demo_room_def zero_participant_def
      server_run_cleanup_def client_is_timed_out_def client_registry_remove_def
      client_cleanup_def room_registry_remove_empty_rooms_def room_is_empty_def
      webrtc_protocol_callback_def client_registry_find_by_wsi_def handle_leave_room_def
      room_remove_participant_def remove_at_def transfer_owner_def MAX_PARTICIPANTS_def
      room_broadcast_message_def client_send_message_def demo_extern_def participants_data_def
      EVENT_PARTICIPANTS_LIST_def demo_msg_def Let_def)

text \<open>
  Claim C3, on the code. The first client is accepted on connection 7 of the freshly
  started server. One \<open>client-id\<close> envelope goes out, but \<open>client_send_message\<close> takes
  its payload as a string and wraps it with \<open>json_string\<close>: the envelope's data is the
  JSON string holding the serialised object, whatever \<open>json_dumps\<close> produces, and not
  the object \<open>{clientId: id}\<close> that the protocol description and its sample client
  (which reads \<open>message.data.clientId\<close>) expect.
\<close>

theorem client_id_is_wrapped_in_a_string:
  "sent (webrtc_protocol_callback E demo_boot 7 LWS_CALLBACK_ESTABLISHED [] (\<lambda>_. 0) 100 0)
     = [(0, \<lparr>m_event = ''client-id'',
              m_data = map_option JString
                (ext_json_dumps E
                   (JObject [(''clientId'',
                              JString ''00000000-0000-4000-8000-000000000000'')]))\<rparr>)]
   \<and> m_data (snd (hd (sent (webrtc_protocol_callback E demo_boot 7 LWS_CALLBACK_ESTABLISHED []
                              (\<lambda>_. 0) 100 0))))
       \<noteq> Some (JObject [(''clientId'', JString ''00000000-0000-4000-8000-000000000000'')])"
proof -
  have s: "sent (webrtc_protocol_callback E demo_boot 7 LWS_CALLBACK_ESTABLISHED [] (\<lambda>_. 0) 100 0)
     = [(0, \<lparr>m_event = ''client-id'',
              m_data = map_option JString
                (ext_json_dumps E
                   (JObject [(''clientId'',
                              JString ''00000000-0000-4000-8000-000000000000'')]))\<rparr>)]"
    unfolding demo_boot_eq
    by (simp add: webrtc_protocol_callback_def client_registry_add_def client_init_def
        client_send_message_def uuid_0 zero_client_def EVENT_CLIENT_ID_def Let_def)
  have "map_option JString x \<noteq> Some (JObject kvs)" for x kvs
    by (cases x) simp_all
  with s show ?thesis by simp
qed

text \<open>
  Claim C4, on the code. The queue holds 1024 entries, its capacity, when a frame of A
  arrives that parses. \<open>message_queue_push\<close> answers -1 and leaves the queue as it was,
  so the message is dropped; \<open>webrtc_protocol_callback\<close> does not look at the answer,
  and \<open>total_errors\<close> is what it was. The counter is incremented only in the branch
  where the frame does not parse.
\<close>

theorem queue_overflow_is_not_counted:
  "client_registry_find_by_wsi demo_flooded (Some 7) = Some 0
   \<and> q_count (msg_queue demo_flooded) = q_capacity (msg_queue demo_flooded)
   \<and> message_deserialize (ext_json_loads demo_extern ''leave-room'')
       = Some \<lparr>m_event = ''leave-room'', m_data = None\<rparr>
   \<and> message_queue_push (msg_queue demo_flooded) (Some 7)
         \<lparr>m_event = ''leave-room'', m_data = None\<rparr> 6
       = (msg_queue demo_flooded, -1)
   \<and> msg_queue (webrtc_protocol_callback demo_extern demo_flooded 7 LWS_CALLBACK_RECEIVE
                   ''leave-room'' (\<lambda>_. 0) 100 6)
       = msg_queue demo_flooded
   \<and> total_errors (webrtc_protocol_callback demo_extern demo_flooded 7 LWS_CALLBACK_RECEIVE
                      ''leave-room'' (\<lambda>_. 0) 100 6)
       = total_errors demo_flooded"
  unfolding demo_flooded_def demo_connected_eq demo_boot_eq
  by (simp add: demo_client_A_def client_registry_find_by_wsi_def message_deserialize_def
      demo_extern_def json_object_get_def message_queue_push_def webrtc_protocol_callback_def
      client_update_activity_def)

end
